theory Spec2Isabelle
  imports Complex_Main
begin

section \<open>Python values, exceptions and results\<close>

text \<open>
  The module \<^verbatim>\<open>djstripe/models.py\<close> is embedded function by function. A method that can
  raise returns a value of \<open>exn + 'a\<close>: \<open>Inl\<close> carries the raised exception, \<open>Inr\<close> the
  returned value. Calls that leave the module (the Stripe client, the inherited
  \<^verbatim>\<open>Stripe*\<close> base classes, signals, settings) are parameters of the embedding, collected
  in one record per group of methods.
\<close>

type_synonym timestamp = int

text \<open>
  The exceptions the module raises, catches or lets pass. \<open>InvalidRequestError\<close> is the
  subclass of \<open>StripeError\<close> the module names; \<open>StripeError\<close> stands for every other
  provider error (card errors, API errors, connection errors). Both carry the message that
  \<^verbatim>\<open>str(exc)\<close> yields and the optional \<^verbatim>\<open>http_body\<close>.
\<close>

datatype exn =
    InvalidRequestError string "string option"
  | StripeError string "string option"
  | MultipleSubscriptionException string
  | SubscriptionCancellationFailure string
  | TypeError string
  | ValueError string
  | KeyError string
  | AttributeError string
  | ValidationError string
  | DoesNotExist
  | MultipleObjectsReturned
  | InvalidOperation

fun is_InvalidRequestError :: "exn \<Rightarrow> bool" where
  "is_InvalidRequestError (InvalidRequestError m b) = True"
| "is_InvalidRequestError e = False"

text \<open>\<^verbatim>\<open>except StripeError\<close> catches the class and its subclasses.\<close>

fun is_StripeError :: "exn \<Rightarrow> bool" where
  "is_StripeError (InvalidRequestError m b) = True"
| "is_StripeError (StripeError m b) = True"
| "is_StripeError e = False"

text \<open>\<^verbatim>\<open>str(exc)\<close>: the message of the exception.\<close>

fun str :: "exn \<Rightarrow> string" where
  "str (InvalidRequestError m b) = m"
| "str (StripeError m b) = m"
| "str (MultipleSubscriptionException m) = m"
| "str (SubscriptionCancellationFailure m) = m"
| "str (TypeError m) = m"
| "str (ValueError m) = m"
| "str (KeyError m) = m"
| "str (AttributeError m) = m"
| "str (ValidationError m) = m"
| "str DoesNotExist = []"
| "str MultipleObjectsReturned = []"
| "str InvalidOperation = []"

text \<open>\<^verbatim>\<open>exc.http_body\<close> of a provider error.\<close>

fun http_body :: "exn \<Rightarrow> string option" where
  "http_body (InvalidRequestError m b) = b"
| "http_body (StripeError m b) = b"
| "http_body e = None"

text \<open>\<^verbatim>\<open>s.startswith(p)\<close>.\<close>

definition startswith :: "string \<Rightarrow> string \<Rightarrow> bool" where
  "startswith s p = (take (length p) s = p)"

text \<open>\<^verbatim>\<open>queryset.first()\<close>: the first row, or None on an empty result.\<close>

definition first :: "'a list \<Rightarrow> 'a option" where
  "first rows = (case rows of [] \<Rightarrow> None | r # _ \<Rightarrow> Some r)"

text \<open>
  \<^verbatim>\<open>int(s)\<close> on a string, which Django applies to the value of a lookup on an integer
  key: white space around the text is dropped, a sign may lead, and what is left must be
  decimal digits, one at least; ValueError otherwise.
\<close>

definition py_space :: "char \<Rightarrow> bool" where
  "py_space c = (c \<in> set [CHR '' '', CHR 0x09, CHR 0x0A, CHR 0x0B, CHR 0x0C, CHR 0x0D])"

definition py_strip :: "string \<Rightarrow> string" where
  "py_strip s = rev (dropWhile py_space (rev (dropWhile py_space s)))"

definition py_digit :: "char \<Rightarrow> bool" where
  "py_digit c = (c \<in> set ''0123456789'')"

definition digits_value :: "string \<Rightarrow> nat" where
  "digits_value ds = foldl (\<lambda>n c. 10 * n + (of_char c - 48)) 0 ds"

definition py_int :: "string \<Rightarrow> exn + int" where
  "py_int s =
     (let t = py_strip s;
          negative = (case t of [] \<Rightarrow> False | c # r \<Rightarrow> c = CHR ''-'');
          ds = (case t of [] \<Rightarrow> [] | c # r \<Rightarrow> if c = CHR ''-'' \<or> c = CHR ''+'' then r else t)
      in if ds \<noteq> [] \<and> list_all py_digit ds
         then Inr (if negative then - int (digits_value ds) else int (digits_value ds))
         else Inl (ValueError ''invalid literal for int() with base 10''))"

section \<open>Subscriptions of a customer\<close>

record Plan =
  plan_stripe_id :: string
  plan_name :: string

text \<open>
  A row of \<^verbatim>\<open>Subscription\<close>. \<open>sub_plan_id\<close> is what the lookup \<^verbatim>\<open>plan__id\<close> compares:
  the integer key of the plan row the subscription points to, not the plan's identifier
  at the provider.
  The list a function takes as \<open>subscriptions\<close> is \<^verbatim>\<open>self.subscriptions\<close>: the rows whose
  customer is \<^verbatim>\<open>self\<close>, in the order the store returns them.
\<close>

record Subscription =
  sub_stripe_id :: string
  sub_plan_id :: int
  sub_status :: string
  current_period_end :: timestamp
  trial_end :: "timestamp option"
  canceled_at :: "timestamp option"
  cancel_at_period_end :: bool
  sub_start :: timestamp

text \<open>The predicates take the value of \<^verbatim>\<open>timezone.now()\<close> as \<open>now\<close>.\<close>

definition is_period_current :: "timestamp \<Rightarrow> Subscription \<Rightarrow> bool" where
  "is_period_current now self = (current_period_end self > now)"

definition is_status_current :: "Subscription \<Rightarrow> bool" where
  "is_status_current self = (sub_status self \<in> set [''trialing'', ''active''])"

definition is_valid :: "timestamp \<Rightarrow> Subscription \<Rightarrow> bool" where
  "is_valid now self =
     (if \<not> is_status_current self then False
      else if \<not> is_period_current now self then False
      else True)"

definition plan_none_check :: "Subscription list \<Rightarrow> exn + unit" where
  "plan_none_check subscriptions =
     (if length subscriptions \<noteq> 1
      then Inl (TypeError
        ''plan cannot be None if more than one subscription exists for this customer.'')
      else Inr ())"

text \<open>
  The argument \<^verbatim>\<open>plan\<close> is a \<^verbatim>\<open>Plan\<close> instance or a plan id; an instance is
  replaced by its \<^verbatim>\<open>stripe_id\<close>, a string.
\<close>

datatype plan_arg = PlanObject Plan | PlanId string

definition plan_key :: "plan_arg \<Rightarrow> string" where
  "plan_key plan = (case plan of PlanObject p \<Rightarrow> plan_stripe_id p | PlanId s \<Rightarrow> s)"

text \<open>
  A lookup \<^verbatim>\<open>plan__id=plan\<close> on \<^verbatim>\<open>self.subscriptions\<close>: the string is converted to the
  integer key first, which raises ValueError when it is not the text of an integer; the
  rows found are those of the plan with that key.
\<close>

definition with_plan_id :: "string \<Rightarrow> Subscription list \<Rightarrow> exn + Subscription list" where
  "with_plan_id plan subscriptions =
     (case py_int plan of
        Inl e \<Rightarrow> Inl e
      | Inr key \<Rightarrow> Inr (filter (\<lambda>s. sub_plan_id s = key) subscriptions))"

definition has_active_subscription ::
  "timestamp \<Rightarrow> Subscription list \<Rightarrow> plan_arg option \<Rightarrow> exn + bool" where
  "has_active_subscription now subscriptions plan =
     (let body =
        (case plan of
           None \<Rightarrow>
             (case plan_none_check subscriptions of
                Inl e \<Rightarrow> Inl e
              | Inr _ \<Rightarrow>
                 (case first subscriptions of
                    None \<Rightarrow> Inl (AttributeError ''is_valid'')
                  | Some s \<Rightarrow> Inr (is_valid now s)))
         | Some p \<Rightarrow>
             (case with_plan_id (plan_key p) subscriptions of
                Inl e \<Rightarrow> Inl e
              | Inr found \<Rightarrow> Inr (list_ex (is_valid now) found)))
      in case body of
           Inl DoesNotExist \<Rightarrow> Inr False
         | r \<Rightarrow> r)"

definition subscription :: "Subscription list \<Rightarrow> exn + Subscription option" where
  "subscription subscriptions =
     (let subscription_count = length subscriptions in
      if subscription_count = 0 then Inr None
      else if subscription_count = 1 then Inr (first subscriptions)
      else Inl (MultipleSubscriptionException
        ''This customer has multiple subscriptions. Use Customer.subscriptions to access them.''))"

text \<open>
  The calls \<^verbatim>\<open>cancel_subscription\<close> makes outside the module: \<^verbatim>\<open>subscription.cancel\<close>
  (inherited from \<^verbatim>\<open>StripeSubscription\<close>, the remote cancellation) and
  \<^verbatim>\<open>Subscription.sync_from_stripe_data\<close>. \<open>'ss\<close> is the provider's subscription object.
\<close>

record 'ss subscription_api =
  cancel :: "Subscription \<Rightarrow> bool \<Rightarrow> exn + 'ss"
  subscription_sync_from_stripe_data :: "'ss \<Rightarrow> exn + Subscription"

text \<open>A remote cancellation call: the subscription and the \<^verbatim>\<open>at_period_end\<close> it was given.\<close>

datatype api_call = CancelCall Subscription bool

text \<open>Lines 253 to 267 of \<^verbatim>\<open>cancel_subscription\<close>: the subscription to cancel.\<close>

definition cancel_target :: "Subscription list \<Rightarrow> plan_arg option \<Rightarrow> exn + Subscription" where
  "cancel_target subscriptions plan =
     (case plan of
        None \<Rightarrow>
          (case plan_none_check subscriptions of
             Inl e \<Rightarrow> Inl e
           | Inr _ \<Rightarrow>
              (case first subscriptions of
                 None \<Rightarrow> Inl (AttributeError ''trial_end'')
               | Some s \<Rightarrow> Inr s))
      | Some p \<Rightarrow>
          (case with_plan_id (plan_key p) subscriptions of
             Inl e \<Rightarrow> Inl e
           | Inr [] \<Rightarrow>
               Inl (SubscriptionCancellationFailure ''Customer does not have a subscription.'')
           | Inr [s] \<Rightarrow> Inr s
           | Inr _ \<Rightarrow> Inl (MultipleSubscriptionException
               ''Customer has multiple subscriptions to the same plan. In order to cancel these subscriptions, use Subscription.cancel().'')))"

text \<open>
  \<^verbatim>\<open>cancel_subscription\<close> returns the remote cancellation calls it made, in order, with
  its result.
\<close>

definition cancel_subscription ::
  "'ss subscription_api \<Rightarrow> timestamp \<Rightarrow> Subscription list \<Rightarrow> plan_arg option \<Rightarrow> bool
     \<Rightarrow> api_call list \<times> (exn + Subscription)" where
  "cancel_subscription api now subscriptions plan at_period_end =
     (case cancel_target subscriptions plan of
        Inl e \<Rightarrow> ([], Inl e)
      | Inr sub \<Rightarrow>
          (let at_period_end =
                 (if (case trial_end sub of None \<Rightarrow> False | Some t \<Rightarrow> t > now)
                  then False else at_period_end)
           in ([CancelCall sub at_period_end],
               (case cancel api sub at_period_end of
                  Inl exc \<Rightarrow>
                    (if is_InvalidRequestError exc
                     then Inl (SubscriptionCancellationFailure
                       (''Customer's information is not current with Stripe.'' @ [CHR 0x0A] @ str exc))
                     else Inl exc)
                | Inr stripe_subscription \<Rightarrow>
                    subscription_sync_from_stripe_data api stripe_subscription))))"

text \<open>Values the examples below are run on.\<close>

definition example_subscription :: Subscription where
  "example_subscription =
     \<lparr>sub_stripe_id = ''sub_1'', sub_plan_id = 7, sub_status = ''trialing'',
      current_period_end = 200, trial_end = Some 150, canceled_at = None,
      cancel_at_period_end = True, sub_start = 0\<rparr>"

definition example_subscription_api :: "(Subscription \<times> bool) subscription_api" where
  "example_subscription_api =
     \<lparr>cancel = (\<lambda>s at_period_end. Inr (s, at_period_end)),
      subscription_sync_from_stripe_data =
        (\<lambda>(s, at_period_end).
           Inr (s\<lparr>sub_status := ''canceled'', canceled_at := Some 100,
                  cancel_at_period_end := at_period_end\<rparr>))\<rparr>"

section \<open>Provider payloads\<close>

text \<open>
  A payload is the parsed JSON the provider sends. Numbers are the integers the provider
  uses for amounts (in cents) and times (epoch seconds). A dictionary is an association
  list with distinct keys.
\<close>

datatype json =
    JNull
  | JBool bool
  | JInt int
  | JStr string
  | JList "json list"
  | JDict "(string \<times> json) list"

text \<open>\<^verbatim>\<open>d[k]\<close> with a string key: KeyError on a missing key, TypeError on anything but a dict.\<close>

fun getitem :: "json \<Rightarrow> string \<Rightarrow> exn + json" where
  "getitem (JDict kvs) k = (case map_of kvs k of None \<Rightarrow> Inl (KeyError k) | Some v \<Rightarrow> Inr v)"
| "getitem j k = Inl (TypeError ''indices must be integers or object is not subscriptable'')"

text \<open>\<^verbatim>\<open>d.get(k, default)\<close>; \<^verbatim>\<open>d.get(k)\<close> is \<open>get d k JNull\<close>.\<close>

fun get :: "json \<Rightarrow> string \<Rightarrow> json \<Rightarrow> exn + json" where
  "get (JDict kvs) k dflt = (case map_of kvs k of None \<Rightarrow> Inr dflt | Some v \<Rightarrow> Inr v)"
| "get j k dflt = Inl (AttributeError ''get'')"

text \<open>The truth value Python gives a payload value in \<^verbatim>\<open>if v\<close> and \<^verbatim>\<open>v or w\<close>.\<close>

fun truthy :: "json \<Rightarrow> bool" where
  "truthy JNull = False"
| "truthy (JBool b) = b"
| "truthy (JInt n) = (n \<noteq> 0)"
| "truthy (JStr s) = (s \<noteq> [])"
| "truthy (JList xs) = (xs \<noteq> [])"
| "truthy (JDict kvs) = (kvs \<noteq> [])"

text \<open>
  \<^verbatim>\<open>for x in v\<close>: the elements of a list, the keys of a dict, the characters of a string;
  TypeError on a value that is not iterable.
\<close>

fun iterate :: "json \<Rightarrow> exn + json list" where
  "iterate (JList xs) = Inr xs"
| "iterate (JDict kvs) = Inr (map (\<lambda>kv. JStr (fst kv)) kvs)"
| "iterate (JStr s) = Inr (map (\<lambda>c. JStr [c]) s)"
| "iterate j = Inl (TypeError ''object is not iterable'')"

text \<open>
  \<^verbatim>\<open>v / decimal.Decimal("100")\<close>: defined on integers (a bool is the integer 0 or 1),
  TypeError otherwise. The quotient is kept exact.
\<close>

fun div_100 :: "json \<Rightarrow> exn + rat" where
  "div_100 (JInt n) = Inr (of_int n / 100)"
| "div_100 (JBool b) = Inr (of_bool b / 100)"
| "div_100 j = Inl (TypeError ''unsupported operand type(s) for /'')"

text \<open>
  A column \<^verbatim>\<open>DecimalField(decimal_places=2, max_digits=7)\<close> takes a value of two decimal
  places with at most seven digits; the write of any other amount raises (the decimal
  module's InvalidOperation when the value is prepared for the store).
\<close>

definition fits_decimal_7_2 :: "rat \<Rightarrow> bool" where
  "fits_decimal_7_2 amount = (abs amount < 100000)"

text \<open>Sequencing: the rest of a block runs on the value unless an exception was raised.\<close>

definition andthen :: "exn + 'a \<Rightarrow> ('a \<Rightarrow> exn + 'b) \<Rightarrow> exn + 'b" where
  "andthen r f = (case r of Inl e \<Rightarrow> Inl e | Inr v \<Rightarrow> f v)"

section \<open>Invoices and their line items\<close>

text \<open>
  The rows of \<^verbatim>\<open>Invoice\<close> and \<^verbatim>\<open>InvoiceItem\<close>. An item points to its invoice by the
  invoice's identifier (\<open>item_invoice\<close>); \<^verbatim>\<open>invoice.items\<close> is the items that point to it.
  \<open>inv_date\<close> is the invoice's \<^verbatim>\<open>date\<close>, by which \<^verbatim>\<open>Invoice.Meta.ordering\<close> sorts.
\<close>

record Invoice =
  inv_stripe_id :: string
  inv_customer :: string
  inv_date :: timestamp
  inv_period_end :: "timestamp option"
  inv_paid :: bool
  inv_closed :: bool

record InvoiceItem =
  item_invoice :: string
  item_stripe_id :: json
  item_amount :: rat
  item_currency :: json
  item_period_start :: "timestamp option"
  item_period_end :: "timestamp option"
  item_proration :: json
  item_line_type :: json
  item_description :: json
  item_plan :: "string option"
  item_quantity :: json

record invoice_db =
  invoices :: "Invoice list"
  items :: "InvoiceItem list"

text \<open>
  What \<^verbatim>\<open>Invoice.sync_from_stripe_data\<close> calls outside the module:
  \<^item> \<open>base_sync\<close>: \<^verbatim>\<open>super().sync_from_stripe_data(data)\<close>, which yields the invoice row
    for the payload;
  \<^item> \<open>convert_tstamp\<close> of \<^verbatim>\<open>utils\<close>;
  \<^item> \<open>plan_from_stripe_id\<close> of the settings;
  \<^item> \<open>sync_charge\<close>: lines 534 to 538, the retrieval and sync of the invoice's charge and
    its receipt, given \<^verbatim>\<open>data["charge"]\<close> and \<^verbatim>\<open>send_receipt\<close>.
\<close>

record invoice_env =
  base_sync :: "json \<Rightarrow> invoice_db \<Rightarrow> exn + (Invoice \<times> invoice_db)"
  convert_tstamp :: "json \<Rightarrow> string \<Rightarrow> exn + timestamp option"
  plan_from_stripe_id :: "json \<Rightarrow> string option"
  sync_charge :: "json \<Rightarrow> bool \<Rightarrow> invoice_db \<Rightarrow> exn + invoice_db"

text \<open>
  \<^verbatim>\<open>invoice.items.get_or_create(stripe_id=..., defaults=...)\<close> followed by the update of
  a row that was found (lines 504 to 528), given the row \<open>new\<close> built from the payload
  line: no matching row, the row is added; one, its fields are overwritten; several,
  the lookup raises. The write of the row raises when the amount does not fit its column.
\<close>

definition get_or_create_item :: "InvoiceItem \<Rightarrow> InvoiceItem list \<Rightarrow> exn + InvoiceItem list" where
  "get_or_create_item new rows =
     (let same = (\<lambda>r. item_invoice r = item_invoice new \<and> item_stripe_id r = item_stripe_id new)
      in case filter same rows of
           [] \<Rightarrow>
             (if fits_decimal_7_2 (item_amount new) then Inr (rows @ [new])
              else Inl InvalidOperation)
         | [found] \<Rightarrow>
             (if fits_decimal_7_2 (item_amount new)
              then Inr (map (\<lambda>r. if same r then new else r) rows)
              else Inl InvalidOperation)
         | _ \<Rightarrow> Inl MultipleObjectsReturned)"

text \<open>The body of the loop over the payload's lines (lines 492 to 528).\<close>

definition sync_line ::
  "invoice_env \<Rightarrow> json \<Rightarrow> Invoice \<times> InvoiceItem list \<Rightarrow> exn + (Invoice \<times> InvoiceItem list)" where
  "sync_line env item st =
     (case st of (invoice, rows) \<Rightarrow>
      andthen (getitem item ''period'') (\<lambda>period.
      andthen (convert_tstamp env period ''end'') (\<lambda>period_end.
      andthen (getitem item ''period'') (\<lambda>period.
      andthen (convert_tstamp env period ''start'') (\<lambda>period_start.
      let invoice = invoice\<lparr>inv_period_end := period_end\<rparr> in
      andthen (get item ''plan'' JNull) (\<lambda>p.
      andthen (if truthy p
               then andthen (getitem p ''id'') (\<lambda>plan_id. Inr (plan_from_stripe_id env plan_id))
               else Inr (Some [])) (\<lambda>plan.
      andthen (getitem item ''id'') (\<lambda>stripe_id.
      andthen (getitem item ''amount'') (\<lambda>cents.
      andthen (div_100 cents) (\<lambda>amount.
      andthen (getitem item ''currency'') (\<lambda>currency.
      andthen (getitem item ''proration'') (\<lambda>proration.
      andthen (get item ''description'' JNull) (\<lambda>d.
      andthen (getitem item ''type'') (\<lambda>line_type.
      andthen (get item ''quantity'' JNull) (\<lambda>quantity.
      andthen (get_or_create_item
                 \<lparr>item_invoice = inv_stripe_id invoice, item_stripe_id = stripe_id,
                  item_amount = amount, item_currency = currency,
                  item_period_start = period_start, item_period_end = period_end,
                  item_proration = proration, item_line_type = line_type,
                  item_description = (if truthy d then d else JStr []),
                  item_plan = plan, item_quantity = quantity\<rparr> rows) (\<lambda>rows.
      Inr (invoice, rows)))))))))))))))))"

fun sync_lines ::
  "invoice_env \<Rightarrow> json list \<Rightarrow> Invoice \<times> InvoiceItem list \<Rightarrow> exn + (Invoice \<times> InvoiceItem list)" where
  "sync_lines env [] st = Inr st"
| "sync_lines env (item # rest) st = andthen (sync_line env item st) (sync_lines env rest)"

text \<open>\<^verbatim>\<open>invoice.save()\<close>: the row with the invoice's identifier is replaced, or added.\<close>

definition save_invoice :: "Invoice \<Rightarrow> invoice_db \<Rightarrow> invoice_db" where
  "save_invoice invoice db =
     (if list_ex (\<lambda>r. inv_stripe_id r = inv_stripe_id invoice) (invoices db)
      then db\<lparr>invoices :=
             map (\<lambda>r. if inv_stripe_id r = inv_stripe_id invoice then invoice else r) (invoices db)\<rparr>
      else db\<lparr>invoices := invoices db @ [invoice]\<rparr>)"

text \<open>\<^verbatim>\<open>Invoice.sync_from_stripe_data(data, send_receipt)\<close>.\<close>

definition invoice_sync_from_stripe_data ::
  "invoice_env \<Rightarrow> json \<Rightarrow> bool \<Rightarrow> invoice_db \<Rightarrow> exn + (Invoice \<times> invoice_db)" where
  "invoice_sync_from_stripe_data env data send_receipt db =
     andthen (base_sync env data db) (\<lambda>(invoice, db).
     andthen (getitem data ''lines'') (\<lambda>lines.
     andthen (get lines ''data'' (JList [])) (\<lambda>line_data.
     andthen (iterate line_data) (\<lambda>line_items.
     andthen (sync_lines env line_items (invoice, items db)) (\<lambda>(invoice, rows).
     let db = save_invoice invoice (db\<lparr>items := rows\<rparr>) in
     andthen (get data ''charge'' JNull) (\<lambda>charge.
     andthen (if truthy charge then sync_charge env charge send_receipt db else Inr db) (\<lambda>db.
     Inr (invoice, db))))))))"

text \<open>A payload line, a payload and the collaborators the examples are run on.\<close>

definition example_line :: "string \<Rightarrow> int \<Rightarrow> json" where
  "example_line line_id period_end =
     JDict [(''id'', JStr line_id),
            (''period'', JDict [(''start'', JInt 100), (''end'', JInt period_end)]),
            (''amount'', JInt 1999), (''currency'', JStr ''usd''),
            (''proration'', JBool False), (''type'', JStr ''subscription'')]"

definition example_invoice_payload :: "json list \<Rightarrow> json" where
  "example_invoice_payload line_items =
     JDict [(''id'', JStr ''in_1''), (''lines'', JDict [(''data'', JList line_items)])]"

definition example_invoice :: Invoice where
  "example_invoice =
     \<lparr>inv_stripe_id = ''in_1'', inv_customer = ''cus_1'', inv_date = 40,
      inv_period_end = Some 50,
      inv_paid = False, inv_closed = False\<rparr>"

definition example_invoice_env :: invoice_env where
  "example_invoice_env =
     \<lparr>base_sync = (\<lambda>data db. Inr (example_invoice, db)),
      convert_tstamp = (\<lambda>period field.
        case get period field JNull of
          Inl e \<Rightarrow> Inl e
        | Inr (JInt n) \<Rightarrow> Inr (if n = 0 then None else Some n)
        | Inr _ \<Rightarrow> Inr None),
      plan_from_stripe_id = (\<lambda>plan_id. None),
      sync_charge = (\<lambda>charge send_receipt db. Inr db)\<rparr>"

definition empty_invoice_db :: invoice_db where
  "empty_invoice_db = \<lparr>invoices = [], items = []\<rparr>"

section \<open>Retrying unpaid invoices\<close>

text \<open>
  What \<^verbatim>\<open>_sync_invoices\<close> and \<^verbatim>\<open>retry_unpaid_invoices\<close> call outside the module:
  \<^item> \<open>list_invoices\<close>: \<^verbatim>\<open>self.api_retrieve()\<close> followed by \<^verbatim>\<open>.invoices(**kwargs).data\<close>,
    the customer's invoices at the provider;
  \<^item> \<open>retry\<close>: \<^verbatim>\<open>invoice.retry()\<close>, inherited from \<^verbatim>\<open>StripeInvoice\<close>; it yields the
    exception it raised, if any, and the store it left.
  A customer is named by its identifier.
\<close>

record customer_env =
  list_invoices :: "string \<Rightarrow> exn + json list"
  retry :: "Invoice \<Rightarrow> invoice_db \<Rightarrow> exn option \<times> invoice_db"

fun sync_each :: "invoice_env \<Rightarrow> json list \<Rightarrow> invoice_db \<Rightarrow> exn + invoice_db" where
  "sync_each ienv [] db = Inr db"
| "sync_each ienv (invoice # rest) db =
     andthen (invoice_sync_from_stripe_data ienv invoice False db)
       (\<lambda>(synced, db). sync_each ienv rest db)"

definition sync_invoices ::
  "customer_env \<Rightarrow> invoice_env \<Rightarrow> string \<Rightarrow> invoice_db \<Rightarrow> exn + invoice_db" where
  "sync_invoices env ienv self db =
     andthen (list_invoices env self) (\<lambda>data. sync_each ienv data db)"

text \<open>
  The loop of \<^verbatim>\<open>retry_unpaid_invoices\<close> over the rows the query returned. Only
  \<^verbatim>\<open>InvalidRequestError\<close> is caught; the handler re-raises it unless its message is the
  literal text.
\<close>

fun retry_each :: "customer_env \<Rightarrow> Invoice list \<Rightarrow> invoice_db \<Rightarrow> exn + invoice_db" where
  "retry_each env [] db = Inr db"
| "retry_each env (invoice # rest) db =
     (case retry env invoice db of
        (None, db) \<Rightarrow> retry_each env rest db
      | (Some exc, db) \<Rightarrow>
          (if is_InvalidRequestError exc
           then (if str exc \<noteq> ''Invoice is already paid'' then Inl exc
                 else retry_each env rest db)
           else Inl exc))"

text \<open>
  \<^verbatim>\<open>self.invoices.filter(paid=False, closed=False)\<close>. The rows come in the order of
  \<^verbatim>\<open>Invoice.Meta.ordering = ["-date"]\<close>, the latest date first; rows of one date, whose
  order the database leaves open, are kept in the order of the store.
\<close>

definition unpaid_invoices :: "string \<Rightarrow> invoice_db \<Rightarrow> Invoice list" where
  "unpaid_invoices self db =
     sort_key (\<lambda>i. - inv_date i)
       (filter (\<lambda>i. inv_customer i = self \<and> inv_paid i = False \<and> inv_closed i = False)
          (invoices db))"

definition retry_unpaid_invoices ::
  "customer_env \<Rightarrow> invoice_env \<Rightarrow> string \<Rightarrow> invoice_db \<Rightarrow> exn + invoice_db" where
  "retry_unpaid_invoices env ienv self db =
     andthen (sync_invoices env ienv self db)
       (\<lambda>db. retry_each env (unpaid_invoices self db) db)"

text \<open>
  A store with one unpaid invoice of customer \<open>cus_1\<close>, and one with two, the later
  invoice stored second; a provider that lists no invoice, with retries that raise a
  given exception, and one whose retry of the invoice \<open>in_1\<close> raises a given exception
  while every other retry raises "Invoice is already paid".
\<close>

definition unpaid_invoice_db :: invoice_db where
  "unpaid_invoice_db = \<lparr>invoices = [example_invoice], items = []\<rparr>"

definition later_invoice :: Invoice where
  "later_invoice = example_invoice\<lparr>inv_stripe_id := ''in_2'', inv_date := 90\<rparr>"

definition two_unpaid_invoices_db :: invoice_db where
  "two_unpaid_invoices_db = \<lparr>invoices = [example_invoice, later_invoice], items = []\<rparr>"

definition raising_retry_env :: "exn \<Rightarrow> customer_env" where
  "raising_retry_env exc =
     \<lparr>list_invoices = (\<lambda>self. Inr []), retry = (\<lambda>invoice db. (Some exc, db))\<rparr>"

definition second_raising_retry_env :: "exn \<Rightarrow> customer_env" where
  "second_raising_retry_env exc =
     \<lparr>list_invoices = (\<lambda>self. Inr []),
      retry = (\<lambda>invoice db.
        (if inv_stripe_id invoice = ''in_1'' then Some exc
         else Some (InvalidRequestError ''Invoice is already paid'' None), db))\<rparr>"

section \<open>Cards and the purge of a customer\<close>

text \<open>
  The rows of \<^verbatim>\<open>Card\<close> and \<^verbatim>\<open>Customer\<close>. A card points to its customer by the
  customer's identifier; \<^verbatim>\<open>self.sources\<close> is the cards that point to the customer.
  \<open>inherited\<close> holds the fields \<^verbatim>\<open>StripeCustomer\<close> declares, \<open>'u\<close> is the subscriber model.
\<close>

record Card =
  card_stripe_id :: string
  card_customer :: string

record ('u, 'b) Customer =
  stripe_id :: string
  subscriber :: "'u option"
  default_source :: "string option"
  date_purged :: "timestamp option"
  inherited :: 'b

record ('u, 'b) customer_db =
  customers :: "('u, 'b) Customer list"
  sources :: "Card list"

text \<open>
  What \<^verbatim>\<open>Card.remove\<close> and \<^verbatim>\<open>Customer.purge\<close> call outside the module: the two remote
  deletions \<^verbatim>\<open>self._api_delete()\<close>, each yielding the exception it raised, if any (the
  card's reaches the provider through the card's customer, which it reads from the
  store); and \<^verbatim>\<open>super(Customer, self).purge()\<close>, which works on the inherited fields.
\<close>

record ('u, 'b) purge_env =
  customer_api_delete :: "('u, 'b) Customer \<Rightarrow> exn option"
  card_api_delete :: "Card \<Rightarrow> ('u, 'b) customer_db \<Rightarrow> exn option"
  stripe_customer_purge :: "'b \<Rightarrow> exn + 'b"

text \<open>
  \<^verbatim>\<open>self.delete()\<close> of a card. The row leaves the store, and so do the rows that
  point to it through a foreign key, which cascades by default: the customers whose
  \<^verbatim>\<open>default_source\<close> is the card (line 113), with each such customer the sources that
  point to it, with each of those the customers whose default source it is, and so on.
  \<open>cascade\<close> collects the identifiers of the cards that leave: a round adds the cards of
  the customers that point to a card collected so far, and as many rounds as the store
  has sources reach them all.
\<close>

definition gone_customers :: "('u, 'b) customer_db \<Rightarrow> string list \<Rightarrow> ('u, 'b) Customer list" where
  "gone_customers db dead =
     filter (\<lambda>c. case default_source c of None \<Rightarrow> False | Some d \<Rightarrow> d \<in> set dead)
       (customers db)"

definition cascade_step :: "('u, 'b) customer_db \<Rightarrow> string list \<Rightarrow> string list" where
  "cascade_step db dead =
     dead @ map card_stripe_id
       (filter (\<lambda>s. card_stripe_id s \<notin> set dead \<and>
                    card_customer s \<in> set (map stripe_id (gone_customers db dead)))
          (sources db))"

definition cascade :: "Card \<Rightarrow> ('u, 'b) customer_db \<Rightarrow> string list" where
  "cascade self db = ((cascade_step db) ^^ length (sources db)) [card_stripe_id self]"

definition delete_card :: "Card \<Rightarrow> ('u, 'b) customer_db \<Rightarrow> ('u, 'b) customer_db" where
  "delete_card self db =
     (let dead = cascade self db in
      db\<lparr>customers :=
           filter (\<lambda>c. case default_source c of None \<Rightarrow> True | Some d \<Rightarrow> d \<notin> set dead)
             (customers db),
         sources := filter (\<lambda>s. card_stripe_id s \<notin> set dead) (sources db)\<rparr>)"

text \<open>
  \<^verbatim>\<open>Card.remove\<close>. The handler of \<^verbatim>\<open>InvalidRequestError\<close> holds one \<^verbatim>\<open>if\<close> whose body is
  \<^verbatim>\<open>pass\<close> and which has no \<^verbatim>\<open>else\<close>: both ways leave the handler and reach
  \<^verbatim>\<open>self.delete()\<close>.
\<close>

definition remove :: "('u, 'b) purge_env \<Rightarrow> Card \<Rightarrow> ('u, 'b) customer_db \<Rightarrow> exn + ('u, 'b) customer_db" where
  "remove env self db =
     (case card_api_delete env self db of
        None \<Rightarrow> Inr (delete_card self db)
      | Some exc \<Rightarrow>
          (if is_InvalidRequestError exc
           then (if startswith (str exc) ''No such customer:''
                 then Inr (delete_card self db)
                 else Inr (delete_card self db))
           else Inl exc))"

fun remove_each ::
  "('u, 'b) purge_env \<Rightarrow> Card list \<Rightarrow> ('u, 'b) customer_db \<Rightarrow> exn + ('u, 'b) customer_db" where
  "remove_each env [] db = Inr db"
| "remove_each env (source # rest) db = andthen (remove env source db) (remove_each env rest)"

text \<open>
  \<^verbatim>\<open>self.save()\<close> of a customer: the row with its identifier is replaced, or added when
  the store has none (a row that a cascade deleted is written anew).
\<close>

definition save_customer :: "('u, 'b) Customer \<Rightarrow> ('u, 'b) customer_db \<Rightarrow> ('u, 'b) customer_db" where
  "save_customer self db =
     (if list_ex (\<lambda>r. stripe_id r = stripe_id self) (customers db)
      then db\<lparr>customers := map (\<lambda>r. if stripe_id r = stripe_id self then self else r) (customers db)\<rparr>
      else db\<lparr>customers := customers db @ [self]\<rparr>)"

text \<open>
  \<^verbatim>\<open>Customer.purge\<close>, with the value of \<^verbatim>\<open>timezone.now()\<close> at line 164 as \<open>now\<close>. It
  returns the customer object as the method leaves it and the store.
\<close>

definition purge ::
  "('u, 'b) purge_env \<Rightarrow> timestamp \<Rightarrow> ('u, 'b) Customer \<Rightarrow> ('u, 'b) customer_db
     \<Rightarrow> exn + (('u, 'b) Customer \<times> ('u, 'b) customer_db)" where
  "purge env now self db =
     andthen
       (case customer_api_delete env self of
          None \<Rightarrow> Inr ()
        | Some exc \<Rightarrow>
            (if is_InvalidRequestError exc
             then (if startswith (str exc) ''No such customer:'' then Inr () else Inl exc)
             else Inl exc)) (\<lambda>_.
     let self = self\<lparr>subscriber := None\<rparr>;
         self = self\<lparr>default_source := None\<rparr>
     in
     andthen (remove_each env (filter (\<lambda>c. card_customer c = stripe_id self) (sources db)) db)
       (\<lambda>db.
     andthen (stripe_customer_purge env (inherited self)) (\<lambda>fields.
     let self = self\<lparr>inherited := fields\<rparr>;
         self = self\<lparr>date_purged := Some now\<rparr>
     in Inr (self, save_customer self db))))"

text \<open>
  A customer with one card, and a provider whose customer deletion answers as given and
  whose card deletion raises as given.
\<close>

definition example_card :: Card where
  "example_card = \<lparr>card_stripe_id = ''card_1'', card_customer = ''cus_1''\<rparr>"

definition example_customer :: "(string, unit) Customer" where
  "example_customer =
     \<lparr>stripe_id = ''cus_1'', subscriber = Some ''alice'', default_source = Some ''card_1'',
      date_purged = None, inherited = ()\<rparr>"

definition example_customer_db :: "(string, unit) customer_db" where
  "example_customer_db = \<lparr>customers = [example_customer], sources = [example_card]\<rparr>"

definition example_purge_env :: "exn option \<Rightarrow> exn option \<Rightarrow> (string, unit) purge_env" where
  "example_purge_env customer_answer card_answer =
     \<lparr>customer_api_delete = (\<lambda>self. customer_answer),
      card_api_delete = (\<lambda>self db. card_answer),
      stripe_customer_purge = (\<lambda>fields. Inr fields)\<rparr>"

text \<open>The example customer and its store after a purge at time \<open>t\<close>.\<close>

definition purged_customer :: "timestamp \<Rightarrow> (string, unit) Customer" where
  "purged_customer t =
     \<lparr>stripe_id = ''cus_1'', subscriber = None, default_source = None,
      date_purged = Some t, inherited = ()\<rparr>"

definition purged_customer_db :: "timestamp \<Rightarrow> (string, unit) customer_db" where
  "purged_customer_db t = \<lparr>customers = [purged_customer t], sources = []\<rparr>"

section \<open>Events\<close>

text \<open>
  A row of \<^verbatim>\<open>Event\<close>. \<open>'m\<close> is the type of message payloads, compared by Python's
  \<^verbatim>\<open>==\<close>, which on dictionaries does not look at the order of keys; it is kept abstract
  for that reason, and equality on \<open>'m\<close> stands for \<^verbatim>\<open>==\<close>. \<open>valid\<close> is the tri-state
  flag: \<open>None\<close> is not yet confirmed.
\<close>

record 'm Event =
  ev_stripe_id :: string
  ev_type :: string
  webhook_message :: 'm
  valid :: "bool option"
  processed :: bool

definition message :: "'m Event \<Rightarrow> 'm option" where
  "message self = (if valid self = Some True then Some (webhook_message self) else None)"

text \<open>
  What \<^verbatim>\<open>validate\<close> calls outside the module: \<open>api_retrieve\<close>, the re-download of the
  event, and \<open>canonical\<close>, which stands for
  \<^verbatim>\<open>json.loads(json.dumps(event.to_dict(), sort_keys=True))\<close> on the downloaded object \<open>'r\<close>.
\<close>

record ('m, 'r) validate_env =
  api_retrieve :: "'m Event \<Rightarrow> exn + 'r"
  canonical :: "'r \<Rightarrow> exn + 'm"

text \<open>\<^verbatim>\<open>Event.validate\<close>; the event it returns is the row \<^verbatim>\<open>self.save()\<close> stores.\<close>

definition validate :: "('m, 'r) validate_env \<Rightarrow> 'm Event \<Rightarrow> exn + 'm Event" where
  "validate env self =
     andthen (api_retrieve env self) (\<lambda>event.
     andthen (canonical env event) (\<lambda>validated_message.
     Inr (self\<lparr>valid := Some (webhook_message self = validated_message)\<rparr>)))"

text \<open>
  The audit rows and the signals \<^verbatim>\<open>process\<close> leaves behind. A row of
  \<^verbatim>\<open>EventProcessingException\<close> points to its event by the event's identifier. A signal is
  recorded when it is sent: the per-type webhook signal with its event, or
  \<^verbatim>\<open>webhook_processing_error\<close> with the \<^verbatim>\<open>data\<close> and the \<^verbatim>\<open>exception\<close> it was sent with.
  The receivers of a signal and the store that takes the audit row are collaborators
  outside the module; sending and writing are taken to return.
\<close>

record EventProcessingException =
  epe_event :: "string option"
  epe_data :: string
  epe_message :: string
  epe_traceback :: string

datatype 'm signal =
    WebhookSignal string "'m Event"
  | WebhookProcessingError "string option" exn

record 'm event_log =
  exceptions :: "EventProcessingException list"
  signals :: "'m signal list"

text \<open>
  What \<^verbatim>\<open>process\<close> and \<^verbatim>\<open>EventProcessingException.log\<close> call outside the module:
  \<^item> \<open>getitem_data\<close>: \<^verbatim>\<open>message["data"]\<close> on a payload;
  \<^item> \<open>call_handlers\<close>: \<^verbatim>\<open>webhooks.call_handlers\<close>, the registered handlers, taken by the
    exception they raise, if any;
  \<^item> \<open>WEBHOOK_SIGNALS\<close>: whether a signal is registered for an event type;
  \<^item> \<open>format_exc\<close>: \<^verbatim>\<open>traceback.format_exc()\<close> while the exception is handled.
\<close>

record ('m, 'd) process_env =
  getitem_data :: "'m \<Rightarrow> exn + 'd"
  call_handlers :: "'m Event \<Rightarrow> 'd \<Rightarrow> string \<Rightarrow> string \<Rightarrow> exn option"
  WEBHOOK_SIGNALS :: "string \<Rightarrow> bool"
  format_exc :: "exn \<Rightarrow> string"

text \<open>\<^verbatim>\<open>s.split(".", 1)\<close>: one piece without a dot, else the text before the first dot and
  the text after it.\<close>

definition split_dot :: "string \<Rightarrow> string list" where
  "split_dot s =
     (if CHR ''.'' \<in> set s
      then [takeWhile (\<lambda>c. c \<noteq> CHR ''.'') s, tl (dropWhile (\<lambda>c. c \<noteq> CHR ''.'') s)]
      else [s])"

text \<open>\<^verbatim>\<open>EventProcessingException.log(data, exception, event)\<close>.\<close>

definition log_exception ::
  "('m, 'd) process_env \<Rightarrow> string option \<Rightarrow> exn \<Rightarrow> 'm Event \<Rightarrow> 'm event_log \<Rightarrow> 'm event_log" where
  "log_exception env data exception event st =
     st\<lparr>exceptions := exceptions st @
          [\<lparr>epe_event = Some (ev_stripe_id event),
            epe_data = (case data of None \<Rightarrow> [] | Some body \<Rightarrow> if body = [] then [] else body),
            epe_message = str exception,
            epe_traceback = format_exc env exception\<rparr>]\<rparr>"

definition send_signal :: "('m, 'd) process_env \<Rightarrow> 'm Event \<Rightarrow> 'm event_log \<Rightarrow> 'm event_log" where
  "send_signal env self st =
     (if WEBHOOK_SIGNALS env (ev_type self)
      then st\<lparr>signals := signals st @ [WebhookSignal (ev_type self) self]\<rparr>
      else st)"

text \<open>
  \<^verbatim>\<open>Event.process\<close>. It yields the exception that leaves the method, if any, the event as
  the method leaves it (the row \<^verbatim>\<open>self.save()\<close> stores when it is reached) and the audit
  rows and signals.
\<close>

definition process ::
  "('m, 'd) process_env \<Rightarrow> 'm Event \<Rightarrow> 'm event_log \<Rightarrow> exn option \<times> 'm Event \<times> 'm event_log" where
  "process env self st =
     (if valid self = Some True \<and> \<not> processed self
      then
        (case split_dot (ev_type self) of
           [event_type, event_subtype] \<Rightarrow>
             (case andthen
                     (case message self of
                        None \<Rightarrow> Inl (TypeError ''NoneType object is not subscriptable'')
                      | Some m \<Rightarrow> getitem_data env m) (\<lambda>data.
                      case call_handlers env self data event_type event_subtype of
                        Some exc \<Rightarrow> Inl exc
                      | None \<Rightarrow> Inr ())
              of
                Inr _ \<Rightarrow> (None, self\<lparr>processed := True\<rparr>, send_signal env self st)
              | Inl exc \<Rightarrow>
                  (if is_StripeError exc
                   then (None, self,
                         (log_exception env (http_body exc) exc self st)
                           \<lparr>signals := signals st @ [WebhookProcessingError (http_body exc) exc]\<rparr>)
                   else (Some exc, self, st)))
         | _ \<Rightarrow> (Some (ValueError ''not enough values to unpack''), self, st))
      else (None, self, st))"

text \<open>
  Modelled from the spec: the caller of \<^verbatim>\<open>validate\<close> and \<^verbatim>\<open>process\<close>, the webhook
  endpoint, which is not among the sources. In the spec's words the validator is given
  an event row whose \<^verbatim>\<open>valid\<close> is unconfirmed and is never re-run once the flag is
  confirmed, and the dispatcher runs on the event after it. A step in the life of an
  event is therefore one of the two methods run on it: \<^verbatim>\<open>validate\<close>, on an event whose
  flag is unconfirmed, or \<^verbatim>\<open>process\<close>, which guards itself. The audit rows and the
  signals travel with the event.
\<close>

inductive event_step ::
  "('m, 'r) validate_env \<Rightarrow> ('m, 'd) process_env \<Rightarrow> 'm Event \<times> 'm event_log
     \<Rightarrow> 'm Event \<times> 'm event_log \<Rightarrow> bool"
  for venv :: "('m, 'r) validate_env" and penv :: "('m, 'd) process_env"
where
  validation:
    "valid self = None \<Longrightarrow> validate venv self = Inr self' \<Longrightarrow>
     event_step venv penv (self, st) (self', st)"
| processing:
    "process penv self st = (raised, self', st') \<Longrightarrow>
     event_step venv penv (self, st) (self', st')"

code_pred event_step .

text \<open>An event of type \<open>charge.failed\<close> with payload 1, not yet validated, and collaborators
  whose handlers raise as given.\<close>

definition example_event :: "nat Event" where
  "example_event =
     \<lparr>ev_stripe_id = ''evt_1'', ev_type = ''charge.failed'', webhook_message = 1,
      valid = None, processed = False\<rparr>"

definition example_process_env :: "exn option \<Rightarrow> (nat, nat) process_env" where
  "example_process_env raised =
     \<lparr>getitem_data = (\<lambda>m. Inr m),
      call_handlers = (\<lambda>event data event_type event_subtype. raised),
      WEBHOOK_SIGNALS = (\<lambda>t. True),
      format_exc = (\<lambda>exc. ''Traceback (most recent call last): '' @ str exc)\<rparr>"

definition example_validate_env :: "nat \<Rightarrow> (nat, nat) validate_env" where
  "example_validate_env fetched =
     \<lparr>api_retrieve = (\<lambda>self. Inr fetched), canonical = (\<lambda>event. Inr event)\<rparr>"

section \<open>Transfers and their fees\<close>

text \<open>
  The rows of \<^verbatim>\<open>Transfer\<close> and \<^verbatim>\<open>TransferChargeFee\<close>. \<open>tr_inherited\<close> holds the other
  fields \<^verbatim>\<open>StripeTransfer\<close> declares. A fee row points to its transfer by the transfer's
  identifier. \<open>refreshed\<close> records the remote status-refresh calls, by the identifier of
  the transfer each was made for.
\<close>

record ('m, 'b) Transfer =
  tr_stripe_id :: json
  tr_status :: json
  tr_event :: "'m Event option"
  tr_inherited :: 'b

record TransferChargeFee =
  fee_transfer :: json
  fee_amount :: rat
  fee_application :: json
  fee_description :: json
  fee_kind :: json

record ('m, 'b) transfer_db =
  transfers :: "('m, 'b) Transfer list"
  charge_fee_details :: "TransferChargeFee list"
  refreshed :: "json list"

text \<open>
  What \<^verbatim>\<open>process_transfer\<close> calls outside the module and is taken as given:
  \<open>create_from_stripe_object\<close>, the transfer built from a payload by
  \<^verbatim>\<open>cls._create_from_stripe_object\<close>, and \<open>remote_status\<close>, the status the provider
  reports for a transfer.
\<close>

record ('m, 'b) transfer_env =
  create_from_stripe_object :: "json \<Rightarrow> exn + ('m, 'b) Transfer"
  remote_status :: "('m, 'b) Transfer \<Rightarrow> exn + json"

text \<open>
  Modelled from the spec: \<^verbatim>\<open>cls.stripe_objects.get_by_json\<close>, of the managers module, which
  is not among the sources. The spec calls it a lookup of the existing row by the unique
  remote identifier; the identifier is the payload's \<^verbatim>\<open>id\<close>.
\<close>

definition get_by_json :: "json \<Rightarrow> ('m, 'b) transfer_db \<Rightarrow> exn + ('m, 'b) Transfer" where
  "get_by_json stripe_object db =
     andthen (getitem stripe_object ''id'') (\<lambda>stripe_id.
     case filter (\<lambda>r. tr_stripe_id r = stripe_id) (transfers db) of
       [] \<Rightarrow> Inl DoesNotExist
     | [found] \<Rightarrow> Inr found
     | _ \<Rightarrow> Inl MultipleObjectsReturned)"

text \<open>
  Modelled from the spec: \<^verbatim>\<open>transfer.update_status()\<close>, inherited from
  \<^verbatim>\<open>StripeTransfer\<close>, which is not among the sources. The spec calls it a status-refresh
  call to the remote provider: the call is made and the transfer takes the status the
  provider reports.
\<close>

definition update_status ::
  "('m, 'b) transfer_env \<Rightarrow> ('m, 'b) Transfer \<Rightarrow> ('m, 'b) transfer_db
     \<Rightarrow> exn + (('m, 'b) Transfer \<times> ('m, 'b) transfer_db)" where
  "update_status env self db =
     (let db = db\<lparr>refreshed := refreshed db @ [tr_stripe_id self]\<rparr> in
      andthen (remote_status env self) (\<lambda>status. Inr (self\<lparr>tr_status := status\<rparr>, db)))"

text \<open>\<^verbatim>\<open>transfer.save()\<close>: the row with the transfer's identifier is replaced, or added.\<close>

definition save_transfer :: "('m, 'b) Transfer \<Rightarrow> ('m, 'b) transfer_db \<Rightarrow> ('m, 'b) transfer_db" where
  "save_transfer self db =
     (if list_ex (\<lambda>r. tr_stripe_id r = tr_stripe_id self) (transfers db)
      then db\<lparr>transfers :=
             map (\<lambda>r. if tr_stripe_id r = tr_stripe_id self then self else r) (transfers db)\<rparr>
      else db\<lparr>transfers := transfers db @ [self]\<rparr>)"

text \<open>
  The loop that creates one fee row per entry of the fee details (lines 587 to 593). The
  write of a row raises when the amount does not fit its column.
\<close>

fun create_fees ::
  "('m, 'b) Transfer \<Rightarrow> json list \<Rightarrow> ('m, 'b) transfer_db \<Rightarrow> exn + ('m, 'b) transfer_db" where
  "create_fees transfer [] db = Inr db"
| "create_fees transfer (fee # rest) db =
     andthen (getitem fee ''amount'') (\<lambda>cents.
     andthen (div_100 cents) (\<lambda>amount.
     andthen (get fee ''application'' (JStr [])) (\<lambda>application.
     andthen (get fee ''description'' (JStr [])) (\<lambda>description.
     andthen (getitem fee ''type'') (\<lambda>kind.
     if fits_decimal_7_2 amount
     then create_fees transfer rest
            (db\<lparr>charge_fee_details := charge_fee_details db @
                 [\<lparr>fee_transfer = tr_stripe_id transfer, fee_amount = amount,
                   fee_application = application, fee_description = description,
                   fee_kind = kind\<rparr>]\<rparr>)
     else Inl InvalidOperation)))))"

text \<open>\<^verbatim>\<open>Transfer.process_transfer(event, stripe_object)\<close>.\<close>

definition process_transfer ::
  "('m, 'b) transfer_env \<Rightarrow> 'm Event option \<Rightarrow> json \<Rightarrow> ('m, 'b) transfer_db
     \<Rightarrow> exn + ('m, 'b) transfer_db" where
  "process_transfer env event stripe_object db =
     andthen
       (case get_by_json stripe_object db of
          Inr found \<Rightarrow> Inr (found, False)
        | Inl exc \<Rightarrow>
            (if exc = DoesNotExist
             then andthen (create_from_stripe_object env stripe_object) (\<lambda>made. Inr (made, True))
             else Inl exc)) (\<lambda>(transfer, created).
     let transfer = transfer\<lparr>tr_event := event\<rparr> in
     andthen
       (if created
        then
          (let db = save_transfer transfer db in
           andthen (getitem stripe_object ''summary'') (\<lambda>summary.
           andthen (getitem summary ''charge_fee_details'') (\<lambda>details.
           andthen (iterate details) (\<lambda>fees.
           andthen (create_fees transfer fees db) (\<lambda>db. Inr (transfer, db))))))
        else
          andthen (getitem stripe_object ''status'') (\<lambda>status.
          let transfer = transfer\<lparr>tr_status := status\<rparr> in
          Inr (transfer, save_transfer transfer db))) (\<lambda>(transfer, db).
     if (case event of None \<Rightarrow> False | Some e \<Rightarrow> ev_type e = ''transfer.updated'')
     then andthen (update_status env transfer db) (\<lambda>(transfer, db). Inr (save_transfer transfer db))
     else Inr db))"

text \<open>A transfer payload with one fee, the transfer built from it, and a provider that
  reports the status \<open>paid\<close>.\<close>

definition example_transfer_payload :: "string \<Rightarrow> json" where
  "example_transfer_payload status =
     JDict [(''id'', JStr ''tr_1''), (''status'', JStr status),
            (''summary'', JDict [(''charge_fee_details'',
               JList [JDict [(''amount'', JInt 59), (''type'', JStr ''stripe_fee'')]])])]"

definition example_transfer :: "(nat, unit) Transfer" where
  "example_transfer =
     \<lparr>tr_stripe_id = JStr ''tr_1'', tr_status = JStr ''pending'', tr_event = None,
      tr_inherited = ()\<rparr>"

definition example_transfer_env :: "(nat, unit) transfer_env" where
  "example_transfer_env =
     \<lparr>create_from_stripe_object = (\<lambda>stripe_object. Inr example_transfer),
      remote_status = (\<lambda>self. Inr (JStr ''paid''))\<rparr>"

definition example_fee :: TransferChargeFee where
  "example_fee =
     \<lparr>fee_transfer = JStr ''tr_1'', fee_amount = 59 / 100, fee_application = JStr [],
      fee_description = JStr [], fee_kind = JStr ''stripe_fee''\<rparr>"

definition example_transfer_db :: "(nat, unit) transfer_db" where
  "example_transfer_db =
     \<lparr>transfers = [example_transfer], charge_fee_details = [example_fee], refreshed = []\<rparr>"

definition transfer_paid_event :: "nat Event" where
  "transfer_paid_event = example_event\<lparr>ev_type := ''transfer.paid'', valid := Some True\<rparr>"

chapter \<open>Properties\<close>

section \<open>Subscription accessors and cancellation\<close>

text \<open>
  C1. The \<^verbatim>\<open>subscription\<close> accessor of a customer returns none when the customer has no
  subscription row, the single row when there is exactly one, and raises
  MultipleSubscriptionException when there are two or more.
\<close>

theorem subscription_by_count:
  "(length subs = 0 \<longrightarrow> subscription subs = Inr None) \<and>
   (length subs = 1 \<longrightarrow> (\<exists>s. subs = [s] \<and> subscription subs = Inr (Some s))) \<and>
   (2 \<le> length subs \<longrightarrow> (\<exists>m. subscription subs = Inl (MultipleSubscriptionException m)))"
proof (cases subs)
  case Nil
  then show ?thesis by (simp add: subscription_def)
next
  case (Cons s rest)
  then show ?thesis by (cases rest) (simp_all add: subscription_def first_def)
qed

theorem subscription_by_count_witness:
  "subscription [] = Inr None \<and>
   subscription [example_subscription] = Inr (Some example_subscription) \<and>
   (\<exists>m. subscription [example_subscription, example_subscription\<lparr>sub_stripe_id := ''sub_2''\<rparr>]
          = Inl (MultipleSubscriptionException m))"
  using subscription_by_count [of "[]"]
    subscription_by_count [of "[example_subscription]"]
    subscription_by_count
      [of "[example_subscription, example_subscription\<lparr>sub_stripe_id := ''sub_2''\<rparr>]"]
  by simp

text \<open>
  C10. With no subscription row at all, \<^verbatim>\<open>has_active_subscription\<close> called with plan
  None raises TypeError: the check for exactly one subscription fires on zero rows, and
  the handler for \<^verbatim>\<open>Subscription.DoesNotExist\<close> does not catch it.
\<close>

theorem has_active_subscription_no_rows:
  "has_active_subscription now [] None =
     Inl (TypeError ''plan cannot be None if more than one subscription exists for this customer.'')"
  by (simp add: has_active_subscription_def plan_none_check_def)

text \<open>
  C2. When the subscription being cancelled has a \<^verbatim>\<open>trial_end\<close> that is set and strictly
  later than now, the remote cancellation is \<^verbatim>\<open>subscription.cancel\<close> applied to
  \<^verbatim>\<open>at_period_end\<close> false, whatever the caller passed: the one call recorded carries
  false, and the result of the method is what follows from the provider's answer to
  that call.
\<close>

theorem cancel_during_trial_not_at_period_end:
  assumes "cancel_target subscriptions plan = Inr s"
    and "trial_end s = Some t"
    and "now < t"
  shows "cancel_subscription api now subscriptions plan at_period_end =
           ([CancelCall s False],
            (case cancel api s False of
               Inl exc \<Rightarrow>
                 (if is_InvalidRequestError exc
                  then Inl (SubscriptionCancellationFailure
                    (''Customer's information is not current with Stripe.'' @ [CHR 0x0A] @ str exc))
                  else Inl exc)
             | Inr stripe_subscription \<Rightarrow>
                 subscription_sync_from_stripe_data api stripe_subscription))"
  using assms by (simp add: cancel_subscription_def)

theorem cancel_during_trial_witness:
  "cancel_target [example_subscription] None = Inr example_subscription \<and>
   trial_end example_subscription = Some 150 \<and> (100::int) < 150 \<and>
   cancel_subscription example_subscription_api 100 [example_subscription] None True
     = ([CancelCall example_subscription False],
        Inr (example_subscription\<lparr>sub_status := ''canceled'', canceled_at := Some 100,
                                   cancel_at_period_end := False\<rparr>))"
proof -
  have target: "cancel_target [example_subscription] None = Inr example_subscription"
    by (simp add: cancel_target_def plan_none_check_def first_def)
  have trial: "trial_end example_subscription = Some 150"
    by (simp add: example_subscription_def)
  have later: "(100::int) < 150" by simp
  from cancel_during_trial_not_at_period_end
    [OF target trial later, of example_subscription_api True] target trial
  show ?thesis by (simp add: example_subscription_api_def)
qed

lemma cancel_target_plan_examples:
  "cancel_target [example_subscription] (Some (PlanId ''gold''))
     = Inl (ValueError ''invalid literal for int() with base 10'')"
  "cancel_target [example_subscription] (Some (PlanId ''7'')) = Inr example_subscription"
  "has_active_subscription 100 [example_subscription] (Some (PlanId ''gold''))
     = Inl (ValueError ''invalid literal for int() with base 10'')"
  by (simp_all add: cancel_target_def has_active_subscription_def with_plan_id_def py_int_def
      py_strip_def py_space_def py_digit_def digits_value_def plan_key_def
      example_subscription_def)

section \<open>Invoice synchronisation\<close>

lemma andthen_Inr: "andthen r f = Inr y \<longleftrightarrow> (\<exists>v. r = Inr v \<and> f v = Inr y)"
  by (cases r) (simp_all add: andthen_def)

lemma sync_line_period_end:
  assumes "sync_line env item (invoice, rows) = Inr (invoice', rows')"
  shows "\<exists>period period_end.
           getitem item ''period'' = Inr period \<and>
           convert_tstamp env period ''end'' = Inr period_end \<and>
           invoice' = invoice\<lparr>inv_period_end := period_end\<rparr>"
  using assms unfolding sync_line_def Let_def
  by (auto simp: andthen_Inr)

lemma sync_lines_period_end:
  assumes "sync_lines env line_items (invoice, rows) = Inr (invoice', rows')"
  shows "if line_items = [] then invoice' = invoice
         else \<exists>period period_end.
           getitem (last line_items) ''period'' = Inr period \<and>
           convert_tstamp env period ''end'' = Inr period_end \<and>
           invoice' = invoice\<lparr>inv_period_end := period_end\<rparr>"
  using assms
proof (induction line_items arbitrary: invoice rows)
  case Nil
  then show ?case by simp
next
  case (Cons item rest)
  from Cons.prems obtain inv1 rows1 where
    step: "sync_line env item (invoice, rows) = Inr (inv1, rows1)" and
    rest: "sync_lines env rest (inv1, rows1) = Inr (invoice', rows')"
    by (auto simp: andthen_Inr)
  from sync_line_period_end [OF step] obtain period period_end where
    p: "getitem item ''period'' = Inr period" "convert_tstamp env period ''end'' = Inr period_end"
       "inv1 = invoice\<lparr>inv_period_end := period_end\<rparr>" by blast
  show ?case
  proof (cases "rest = []")
    case True
    with rest p show ?thesis by auto
  next
    case False
    with Cons.IH [OF rest] p show ?thesis by auto
  qed
qed


text \<open>
  C3. When the sync of an invoice payload returns, the returned invoice's \<^verbatim>\<open>period_end\<close>
  is the period end of the last line of the payload, in payload order, whatever the
  other lines hold; with no line at all it is the \<^verbatim>\<open>period_end\<close> of the invoice the
  base sync produced, untouched.
\<close>

theorem invoice_period_end_last_line:
  assumes sync: "invoice_sync_from_stripe_data env data send_receipt db = Inr (invoice', db')"
    and base: "base_sync env data db = Inr (invoice0, db0)"
    and lines: "getitem data ''lines'' = Inr lines"
    and line_data: "get lines ''data'' (JList []) = Inr line_data"
    and line_items: "iterate line_data = Inr line_items"
  shows "(line_items = [] \<longrightarrow> inv_period_end invoice' = inv_period_end invoice0) \<and>
         (line_items \<noteq> [] \<longrightarrow>
            (\<exists>period. getitem (last line_items) ''period'' = Inr period \<and>
                       convert_tstamp env period ''end'' = Inr (inv_period_end invoice')))"
proof -
  from sync base lines line_data line_items obtain rows' where
    loop: "sync_lines env line_items (invoice0, items db0) = Inr (invoice', rows')"
    unfolding invoice_sync_from_stripe_data_def Let_def
    by (auto simp: andthen_Inr)
  from sync_lines_period_end [OF loop] show ?thesis
    by (auto split: if_splits)
qed


lemmas example_invoice_defs =
  example_invoice_payload_def example_line_def example_invoice_env_def example_invoice_def
  empty_invoice_db_def

theorem invoice_period_end_last_line_witness:
  "(\<exists>invoice' db'.
      invoice_sync_from_stripe_data example_invoice_env
        (example_invoice_payload [example_line ''a'' 300, example_line ''b'' 200])
        True empty_invoice_db = Inr (invoice', db') \<and>
      inv_period_end invoice' = Some 200) \<and>
   (\<exists>invoice' db'.
      invoice_sync_from_stripe_data example_invoice_env (example_invoice_payload [])
        False empty_invoice_db = Inr (invoice', db') \<and>
      inv_period_end invoice' = Some 50)"
proof -
  let ?env = example_invoice_env
  let ?two = "[example_line ''a'' 300, example_line ''b'' 200]"
  have "\<exists>r. invoice_sync_from_stripe_data ?env (example_invoice_payload ?two) True
          empty_invoice_db = Inr r"
    by (simp add: invoice_sync_from_stripe_data_def example_invoice_defs andthen_def
        sync_line_def get_or_create_item_def fits_decimal_7_2_def save_invoice_def)
  then obtain invoice2 db2 where
    sync2: "invoice_sync_from_stripe_data ?env (example_invoice_payload ?two) True
              empty_invoice_db = Inr (invoice2, db2)"
    by (metis surj_pair)
  have "\<exists>r. invoice_sync_from_stripe_data ?env (example_invoice_payload []) False
          empty_invoice_db = Inr r"
    by (simp add: invoice_sync_from_stripe_data_def example_invoice_defs andthen_def
        save_invoice_def)
  then obtain invoice0 db0 where
    sync0: "invoice_sync_from_stripe_data ?env (example_invoice_payload []) False
              empty_invoice_db = Inr (invoice0, db0)"
    by (metis surj_pair)
  have base: "base_sync ?env payload empty_invoice_db = Inr (example_invoice, empty_invoice_db)"
    for payload
    by (simp add: example_invoice_env_def)
  have lines: "getitem (example_invoice_payload ls) ''lines'' = Inr (JDict [(''data'', JList ls)])"
    for ls
    by (simp add: example_invoice_payload_def)
  have line_data: "get (JDict [(''data'', JList ls)]) ''data'' (JList []) = Inr (JList ls)" for ls
    by simp
  have line_items: "iterate (JList ls) = Inr ls" for ls
    by simp
  from invoice_period_end_last_line [OF sync2 base lines line_data line_items]
  have "inv_period_end invoice2 = Some 200"
    by (auto simp: example_line_def example_invoice_env_def)
  moreover
  from invoice_period_end_last_line [OF sync0 base lines line_data line_items]
  have "inv_period_end invoice0 = Some 50"
    by (simp add: example_invoice_def)
  ultimately show ?thesis
    using sync2 sync0 by blast
qed

section \<open>Retrying unpaid invoices: which errors are swallowed\<close>

lemma retry_each_append:
  "retry_each env (xs @ ys) db = andthen (retry_each env xs db) (retry_each env ys)"
proof (induction xs arbitrary: db)
  case Nil
  show ?case by (simp add: andthen_def)
next
  case (Cons invoice rest)
  obtain raised db1 where r: "retry env invoice db = (raised, db1)"
    by (cases "retry env invoice db")
  show ?case
  proof (cases raised)
    case None
    with r Cons.IH show ?thesis by simp
  next
    case (Some exc)
    with r Cons.IH show ?thesis by (simp add: andthen_def)
  qed
qed

lemma retry_each_tolerated:
  assumes "\<forall>invoice\<in>set rows. \<forall>d.
             (case fst (retry env invoice d) of
                None \<Rightarrow> True
              | Some exc \<Rightarrow> is_InvalidRequestError exc \<and> str exc = ''Invoice is already paid'')"
  shows "\<exists>db'. retry_each env rows db = Inr db'"
  using assms
proof (induction rows arbitrary: db)
  case Nil
  then show ?case by simp
next
  case (Cons invoice rest)
  obtain raised db1 where r: "retry env invoice db = (raised, db1)"
    by (cases "retry env invoice db")
  from Cons.prems have
    "case fst (retry env invoice db) of
       None \<Rightarrow> True
     | Some exc \<Rightarrow> is_InvalidRequestError exc \<and> str exc = ''Invoice is already paid''"
    by simp
  with r have step: "retry_each env (invoice # rest) db = retry_each env rest db1"
    by (cases raised) simp_all
  from Cons.prems have "\<exists>db'. retry_each env rest db1 = Inr db'"
    by (intro Cons.IH) simp
  with step show ?case by simp
qed

lemma retry_each_swallows:
  assumes "retry_each env pre db = Inr dbp"
    and "retry env invoice dbp = (Some (InvalidRequestError ''Invoice is already paid'' body), dbq)"
  shows "retry_each env (pre @ invoice # rest) db = retry_each env rest dbq"
  using assms by (simp add: retry_each_append andthen_def)

lemma retry_each_propagates:
  assumes "retry_each env pre db = Inr dbp"
    and "fst (retry env bad dbp) = Some exc"
    and "\<not> (is_InvalidRequestError exc \<and> str exc = ''Invoice is already paid'')"
  shows "retry_each env (pre @ bad # rest) db = Inl exc"
proof -
  obtain dbq where "retry env bad dbp = (Some exc, dbq)"
    using assms(2) by (cases "retry env bad dbp") simp
  with assms(1,3) show ?thesis
    by (auto simp: retry_each_append andthen_def)
qed

lemma retry_each_raised:
  assumes "retry_each env rows db = Inl exc"
  shows "\<exists>pre bad rest dbp.
           rows = pre @ bad # rest \<and> retry_each env pre db = Inr dbp \<and>
           fst (retry env bad dbp) = Some exc \<and>
           \<not> (is_InvalidRequestError exc \<and> str exc = ''Invoice is already paid'')"
  using assms
proof (induction rows arbitrary: db)
  case Nil
  then show ?case by simp
next
  case (Cons invoice rows)
  obtain raised db1 where r: "retry env invoice db = (raised, db1)"
    by (cases "retry env invoice db")
  have go_on: ?case
    if step: "\<And>xs. retry_each env (invoice # xs) db = retry_each env xs db1"
  proof -
    from step [of rows] Cons.prems have "retry_each env rows db1 = Inl exc" by simp
    from Cons.IH [OF this] obtain pre bad rest dbp where
      split: "rows = pre @ bad # rest" and
      pre: "retry_each env pre db1 = Inr dbp" and
      bad: "fst (retry env bad dbp) = Some exc"
        "\<not> (is_InvalidRequestError exc \<and> str exc = ''Invoice is already paid'')"
      by blast
    from step [of pre] pre have "retry_each env (invoice # pre) db = Inr dbp"
      by simp
    with split bad show ?thesis
      by (intro exI [of _ "invoice # pre"] exI [of _ bad] exI [of _ rest] exI [of _ dbp]) simp
  qed
  show ?case
  proof (cases raised)
    case None
    with r show ?thesis by (intro go_on) simp
  next
    case (Some e)
    show ?thesis
    proof (cases "is_InvalidRequestError e \<and> str e = ''Invoice is already paid''")
      case True
      with r Some show ?thesis by (intro go_on) simp
    next
      case False
      with r Some Cons.prems have "e = exc" by (auto split: if_splits)
      with r Some False show ?thesis
        by (intro exI [of _ "[]"] exI [of _ invoice] exI [of _ rows] exI [of _ db]) simp
    qed
  qed
qed

text \<open>
  C4, as amended. After the invoices were synced, the unpaid invoices are retried latest
  first. When each retry either returns or raises an \<^verbatim>\<open>InvalidRequestError\<close> whose
  message is exactly "Invoice is already paid", the operation returns. For every invoice
  the loop reaches: when its retry raises an \<^verbatim>\<open>InvalidRequestError\<close> with exactly that
  message, the error is swallowed and the operation goes on with the invoices after it;
  when its retry raises anything else (an \<^verbatim>\<open>InvalidRequestError\<close> with another message,
  or an exception of another class whatever its message), that exception leaves the
  operation unchanged. And an exception leaves the operation only in this way.
\<close>

theorem retry_unpaid_invoices_errors:
  assumes "sync_invoices env ienv self db = Inr db1"
  shows "((\<forall>invoice\<in>set (unpaid_invoices self db1). \<forall>d.
             (case fst (retry env invoice d) of
                None \<Rightarrow> True
              | Some exc \<Rightarrow> is_InvalidRequestError exc \<and> str exc = ''Invoice is already paid''))
           \<longrightarrow> (\<exists>db2. retry_unpaid_invoices env ienv self db = Inr db2)) \<and>
         (\<forall>pre invoice rest dbp dbq body.
            unpaid_invoices self db1 = pre @ invoice # rest \<and>
            retry_each env pre db1 = Inr dbp \<and>
            retry env invoice dbp
              = (Some (InvalidRequestError ''Invoice is already paid'' body), dbq)
            \<longrightarrow> retry_unpaid_invoices env ienv self db = retry_each env rest dbq) \<and>
         (\<forall>exc. retry_unpaid_invoices env ienv self db = Inl exc \<longleftrightarrow>
            (\<exists>pre bad rest dbp.
               unpaid_invoices self db1 = pre @ bad # rest \<and>
               retry_each env pre db1 = Inr dbp \<and>
               fst (retry env bad dbp) = Some exc \<and>
               \<not> (is_InvalidRequestError exc \<and> str exc = ''Invoice is already paid'')))"
proof -
  have whole: "retry_unpaid_invoices env ienv self db
                 = retry_each env (unpaid_invoices self db1) db1"
    using assms by (simp add: retry_unpaid_invoices_def andthen_def)
  have completes: "\<exists>db2. retry_each env (unpaid_invoices self db1) db1 = Inr db2"
    if "\<forall>invoice\<in>set (unpaid_invoices self db1). \<forall>d.
             (case fst (retry env invoice d) of
                None \<Rightarrow> True
              | Some exc \<Rightarrow> is_InvalidRequestError exc \<and> str exc = ''Invoice is already paid'')"
    using that by (rule retry_each_tolerated)
  have swallowed: "retry_each env (unpaid_invoices self db1) db1 = retry_each env rest dbq"
    if "unpaid_invoices self db1 = pre @ invoice # rest"
      and "retry_each env pre db1 = Inr dbp"
      and "retry env invoice dbp
             = (Some (InvalidRequestError ''Invoice is already paid'' body), dbq)"
    for pre invoice rest dbp dbq body
    using retry_each_swallows [OF that(2,3)] that(1) by simp
  have raised: "retry_each env (unpaid_invoices self db1) db1 = Inl exc \<longleftrightarrow>
            (\<exists>pre bad rest dbp.
               unpaid_invoices self db1 = pre @ bad # rest \<and>
               retry_each env pre db1 = Inr dbp \<and>
               fst (retry env bad dbp) = Some exc \<and>
               \<not> (is_InvalidRequestError exc \<and> str exc = ''Invoice is already paid''))"
    for exc
  proof
    assume "retry_each env (unpaid_invoices self db1) db1 = Inl exc"
    then show "\<exists>pre bad rest dbp.
               unpaid_invoices self db1 = pre @ bad # rest \<and>
               retry_each env pre db1 = Inr dbp \<and>
               fst (retry env bad dbp) = Some exc \<and>
               \<not> (is_InvalidRequestError exc \<and> str exc = ''Invoice is already paid'')"
      by (rule retry_each_raised)
  next
    assume "\<exists>pre bad rest dbp.
               unpaid_invoices self db1 = pre @ bad # rest \<and>
               retry_each env pre db1 = Inr dbp \<and>
               fst (retry env bad dbp) = Some exc \<and>
               \<not> (is_InvalidRequestError exc \<and> str exc = ''Invoice is already paid'')"
    then obtain pre bad rest dbp where
      "unpaid_invoices self db1 = pre @ bad # rest" "retry_each env pre db1 = Inr dbp"
      "fst (retry env bad dbp) = Some exc"
      "\<not> (is_InvalidRequestError exc \<and> str exc = ''Invoice is already paid'')"
      by blast
    with retry_each_propagates [of env pre db1 dbp bad exc rest]
    show "retry_each env (unpaid_invoices self db1) db1 = Inl exc" by simp
  qed
  show ?thesis
    unfolding whole
  proof (intro conjI allI impI)
    assume "\<forall>invoice\<in>set (unpaid_invoices self db1). \<forall>d.
             (case fst (retry env invoice d) of
                None \<Rightarrow> True
              | Some exc \<Rightarrow> is_InvalidRequestError exc \<and> str exc = ''Invoice is already paid'')"
    then show "\<exists>db2. retry_each env (unpaid_invoices self db1) db1 = Inr db2"
      by (rule completes)
  next
    fix pre invoice rest dbp dbq body
    assume "unpaid_invoices self db1 = pre @ invoice # rest \<and>
            retry_each env pre db1 = Inr dbp \<and>
            retry env invoice dbp
              = (Some (InvalidRequestError ''Invoice is already paid'' body), dbq)"
    then show "retry_each env (unpaid_invoices self db1) db1 = retry_each env rest dbq"
      using swallowed by blast
  next
    fix exc
    show "retry_each env (unpaid_invoices self db1) db1 = Inl exc \<longleftrightarrow>
            (\<exists>pre bad rest dbp.
               unpaid_invoices self db1 = pre @ bad # rest \<and>
               retry_each env pre db1 = Inr dbp \<and>
               fst (retry env bad dbp) = Some exc \<and>
               \<not> (is_InvalidRequestError exc \<and> str exc = ''Invoice is already paid''))"
      by (rule raised)
  qed
qed

text \<open>
  The claim as stated fails for a provider error that is not an
  \<^verbatim>\<open>InvalidRequestError\<close>: with the exact message, it still leaves the operation.
\<close>

theorem retry_other_provider_error_counterexample:
  "retry_unpaid_invoices (raising_retry_env (StripeError ''Invoice is already paid'' None))
     example_invoice_env ''cus_1'' unpaid_invoice_db
   = Inl (StripeError ''Invoice is already paid'' None)"
  by (simp add: retry_unpaid_invoices_def sync_invoices_def raising_retry_env_def
      unpaid_invoice_db_def unpaid_invoices_def example_invoice_def andthen_def)

text \<open>
  Two unpaid invoices, the later one stored second. The later one is retried first and
  its "Invoice is already paid" is swallowed; the retry of the earlier one then raises
  another \<^verbatim>\<open>InvalidRequestError\<close>, which leaves the operation. With only "Invoice is
  already paid" raised, the operation returns.
\<close>

theorem retry_unpaid_invoices_errors_witness:
  "sync_invoices (second_raising_retry_env (InvalidRequestError ''No such invoice: in_1'' None))
     example_invoice_env ''cus_1'' two_unpaid_invoices_db = Inr two_unpaid_invoices_db \<and>
   unpaid_invoices ''cus_1'' two_unpaid_invoices_db = [later_invoice, example_invoice] \<and>
   retry_unpaid_invoices
     (second_raising_retry_env (InvalidRequestError ''No such invoice: in_1'' None))
     example_invoice_env ''cus_1'' two_unpaid_invoices_db
     = Inl (InvalidRequestError ''No such invoice: in_1'' None) \<and>
   (\<exists>db2. retry_unpaid_invoices
            (raising_retry_env (InvalidRequestError ''Invoice is already paid'' None))
            example_invoice_env ''cus_1'' two_unpaid_invoices_db = Inr db2)"
proof -
  let ?exc = "InvalidRequestError ''No such invoice: in_1'' None"
  let ?env = "second_raising_retry_env ?exc"
  let ?paid = "raising_retry_env (InvalidRequestError ''Invoice is already paid'' None)"
  have synced: "sync_invoices ?env example_invoice_env ''cus_1'' two_unpaid_invoices_db
                  = Inr two_unpaid_invoices_db"
    by (simp add: sync_invoices_def second_raising_retry_env_def andthen_def)
  have synced': "sync_invoices ?paid example_invoice_env ''cus_1'' two_unpaid_invoices_db
                  = Inr two_unpaid_invoices_db"
    by (simp add: sync_invoices_def raising_retry_env_def andthen_def)
  have rows: "unpaid_invoices ''cus_1'' two_unpaid_invoices_db = [later_invoice, example_invoice]"
    by (simp add: unpaid_invoices_def two_unpaid_invoices_db_def later_invoice_def
        example_invoice_def)
  have reached: "\<exists>pre bad rest dbp.
      unpaid_invoices ''cus_1'' two_unpaid_invoices_db = pre @ bad # rest \<and>
      retry_each ?env pre two_unpaid_invoices_db = Inr dbp \<and>
      fst (retry ?env bad dbp) = Some ?exc \<and>
      \<not> (is_InvalidRequestError ?exc \<and> str ?exc = ''Invoice is already paid'')"
    by (intro exI [of _ "[later_invoice]"] exI [of _ example_invoice] exI [of _ "[]"]
        exI [of _ two_unpaid_invoices_db])
      (simp add: rows second_raising_retry_env_def later_invoice_def example_invoice_def)
  from retry_unpaid_invoices_errors [OF synced] reached
  have raises: "retry_unpaid_invoices ?env example_invoice_env ''cus_1'' two_unpaid_invoices_db
                  = Inl ?exc"
    by blast
  have "\<forall>invoice\<in>set (unpaid_invoices ''cus_1'' two_unpaid_invoices_db). \<forall>d.
          (case fst (retry ?paid invoice d) of
             None \<Rightarrow> True
           | Some exc \<Rightarrow> is_InvalidRequestError exc \<and> str exc = ''Invoice is already paid'')"
    by (simp add: raising_retry_env_def)
  with retry_unpaid_invoices_errors [OF synced']
  have returns: "\<exists>db2. retry_unpaid_invoices ?paid example_invoice_env ''cus_1''
                         two_unpaid_invoices_db = Inr db2"
    by blast
  from synced rows raises returns show ?thesis by simp
qed

section \<open>Removing cards and purging customers\<close>

text \<open>
  C9. During card removal a remote deletion error that says the resource is already gone
  is tolerated, and every other provider error is to reach the caller. The code departs
  from the second half: \<^verbatim>\<open>Card.remove\<close> swallows every \<^verbatim>\<open>InvalidRequestError\<close>, not
  only the one that says the resource is gone. Here the remote deletion raises an
  \<^verbatim>\<open>InvalidRequestError\<close> with another message; the method returns and the card's row
  is deleted (with it, by the cascade, the row of the customer whose default source the
  card is).
\<close>

theorem remove_swallows_other_invalid_request:
  "remove (example_purge_env None (Some (InvalidRequestError ''Received unknown parameter: card'' None)))
     example_card example_customer_db
   = Inr \<lparr>customers = [], sources = []\<rparr>"
  by (simp add: remove_def example_purge_env_def delete_card_def cascade_def cascade_step_def
      gone_customers_def example_customer_db_def example_customer_def example_card_def
      startswith_def)

lemma cascade_step_keeps: "x \<in> set dead \<Longrightarrow> x \<in> set (cascade_step db dead)"
  by (simp add: cascade_step_def)

lemma cascade_rounds_keep: "x \<in> set dead \<Longrightarrow> x \<in> set (((cascade_step db) ^^ n) dead)"
  by (induction n) (simp_all add: cascade_step_keeps)

lemma cascade_has_card: "card_stripe_id self \<in> set (cascade self db)"
  unfolding cascade_def by (rule cascade_rounds_keep) simp

lemma delete_card_sources:
  "set (sources (delete_card self db)) \<subseteq> set (sources db)"
  "\<forall>c\<in>set (sources (delete_card self db)). card_stripe_id c \<noteq> card_stripe_id self"
  using cascade_has_card [of self db] by (auto simp: delete_card_def Let_def)

lemma remove_each_sources:
  assumes "remove_each env rows db = Inr db'"
  shows "set (sources db') \<subseteq> set (sources db) \<and>
         (\<forall>c\<in>set (sources db'). card_stripe_id c \<notin> card_stripe_id ` set rows)"
  using assms
proof (induction rows arbitrary: db)
  case Nil
  then show ?case by simp
next
  case (Cons source rest)
  from Cons.prems obtain db1 where
    one: "remove env source db = Inr db1" and more: "remove_each env rest db1 = Inr db'"
    by (auto simp: andthen_Inr)
  from one have db1: "db1 = delete_card source db"
    by (auto simp: remove_def split: option.splits if_splits)
  from Cons.IH [OF more] have
    sub: "set (sources db') \<subseteq> set (sources db1)" and
    rest: "\<forall>c\<in>set (sources db'). card_stripe_id c \<notin> card_stripe_id ` set rest"
    by simp_all
  from sub delete_card_sources(1) [of source db]
  have "set (sources db') \<subseteq> set (sources db)"
    unfolding db1 by blast
  moreover from sub delete_card_sources(2) [of source db]
  have "\<forall>c\<in>set (sources db'). card_stripe_id c \<noteq> card_stripe_id source"
    unfolding db1 by blast
  ultimately show ?case using rest by auto
qed

lemma purge_result:
  assumes "purge env now self db = Inr (self', db')"
  shows "\<exists>fields. stripe_customer_purge env (inherited self) = Inr fields \<and>
           self' = self\<lparr>subscriber := None, default_source := None, inherited := fields,
                        date_purged := Some now\<rparr>"
    and "filter (\<lambda>c. card_customer c = stripe_id self) (sources db') = []"
proof -
  let ?rows = "filter (\<lambda>c. card_customer c = stripe_id self) (sources db)"
  from assms obtain db1 fields where
    loop: "remove_each env ?rows db = Inr db1" and
    base: "stripe_customer_purge env (inherited self) = Inr fields" and
    self': "self' = self\<lparr>subscriber := None, default_source := None, inherited := fields,
                          date_purged := Some now\<rparr>" and
    db': "db' = save_customer self' db1"
    unfolding purge_def Let_def by (auto simp: andthen_Inr)
  from base self' show "\<exists>fields. stripe_customer_purge env (inherited self) = Inr fields \<and>
           self' = self\<lparr>subscriber := None, default_source := None, inherited := fields,
                        date_purged := Some now\<rparr>" by blast
  have "sources db' = sources db1"
    by (simp add: db' save_customer_def)
  with remove_each_sources [OF loop]
  show "filter (\<lambda>c. card_customer c = stripe_id self) (sources db') = []"
    by (fastforce simp: filter_empty_conv)
qed


text \<open>
  C6, as amended. After a purge that returned, a second purge whose remote deletion
  succeeds or raises an \<^verbatim>\<open>InvalidRequestError\<close> starting with "No such customer:" (and
  whose inherited purge returns) returns as well; it leaves the subscriber and the
  default source cleared and the customer's payment sources as they were, none; and
  \<^verbatim>\<open>date_purged\<close> stays set, but to the time of the second call.
\<close>

theorem purge_twice:
  assumes first: "purge env1 t1 self db = Inr (self1, db1)"
    and remote: "customer_api_delete env2 self1 = None \<or>
                 (\<exists>m b. customer_api_delete env2 self1 = Some (InvalidRequestError m b) \<and>
                        startswith m ''No such customer:'')"
    and base: "stripe_customer_purge env2 (inherited self1) = Inr fields2"
  shows "\<exists>self2 db2.
           purge env2 t2 self1 db1 = Inr (self2, db2) \<and>
           subscriber self2 = None \<and> subscriber self1 = None \<and>
           default_source self2 = None \<and> default_source self1 = None \<and>
           sources db2 = sources db1 \<and>
           filter (\<lambda>c. card_customer c = stripe_id self2) (sources db2) = [] \<and>
           date_purged self1 = Some t1 \<and> date_purged self2 = Some t2"
proof -
  from purge_result [OF first] obtain fields1 where
    self1: "self1 = self\<lparr>subscriber := None, default_source := None, inherited := fields1,
                          date_purged := Some t1\<rparr>" and
    none: "filter (\<lambda>c. card_customer c = stripe_id self) (sources db1) = []"
    by blast
  have id1: "stripe_id self1 = stripe_id self"
    by (simp add: self1)
  have deleted:
    "(case customer_api_delete env2 self1 of
        None \<Rightarrow> Inr ()
      | Some exc \<Rightarrow>
          (if is_InvalidRequestError exc
           then (if startswith (str exc) ''No such customer:'' then Inr () else Inl exc)
           else Inl exc)) = (Inr () :: exn + unit)"
    using remote by auto
  let ?self2 = "self1\<lparr>subscriber := None, default_source := None, inherited := fields2,
                      date_purged := Some t2\<rparr>"
  have "purge env2 t2 self1 db1 = Inr (?self2, save_customer ?self2 db1)"
    unfolding purge_def Let_def
    by (simp only: deleted) (simp add: andthen_def id1 none base)
  moreover have "sources (save_customer ?self2 db1) = sources db1"
    by (simp add: save_customer_def)
  ultimately show ?thesis
    using none by (simp add: self1)
qed

text \<open>
  The claim as stated fails on \<^verbatim>\<open>date_purged\<close>: purged at time 10 and again at time 20,
  the customer carries the date of the second call, not the one the first call set.
\<close>

theorem purge_twice_date_counterexample:
  "purge (example_purge_env None None) 10 example_customer example_customer_db
     = Inr (purged_customer 10, purged_customer_db 10) \<and>
   purge (example_purge_env (Some (InvalidRequestError ''No such customer: cus_1'' None)) None) 20
     (purged_customer 10) (purged_customer_db 10)
     = Inr (purged_customer 20, purged_customer_db 20) \<and>
   date_purged (purged_customer 20) \<noteq> date_purged (purged_customer 10)"
  by (simp add: purge_def Let_def remove_def delete_card_def cascade_def cascade_step_def
      gone_customers_def save_customer_def andthen_def
      example_purge_env_def example_customer_def example_customer_db_def example_card_def
      purged_customer_def purged_customer_db_def startswith_def)

theorem purge_twice_witness:
  "purge (example_purge_env None None) 10 example_customer example_customer_db
     = Inr (purged_customer 10, purged_customer_db 10) \<and>
   (\<exists>self2 db2.
      purge (example_purge_env (Some (InvalidRequestError ''No such customer: cus_1'' None)) None)
        20 (purged_customer 10) (purged_customer_db 10) = Inr (self2, db2) \<and>
      subscriber self2 = None \<and> default_source self2 = None \<and>
      sources db2 = [] \<and> date_purged self2 = Some 20)"
proof -
  let ?env2 = "example_purge_env (Some (InvalidRequestError ''No such customer: cus_1'' None)) None"
  have first: "purge (example_purge_env None None) 10 example_customer example_customer_db
                 = Inr (purged_customer 10, purged_customer_db 10)"
    by (simp add: purge_def Let_def remove_def delete_card_def cascade_def cascade_step_def
        gone_customers_def save_customer_def andthen_def
        example_purge_env_def example_customer_def example_customer_db_def example_card_def
        purged_customer_def purged_customer_db_def)
  have remote: "customer_api_delete ?env2 (purged_customer 10) = None \<or>
                (\<exists>m b. customer_api_delete ?env2 (purged_customer 10)
                          = Some (InvalidRequestError m b) \<and>
                       startswith m ''No such customer:'')"
    by (simp add: example_purge_env_def startswith_def)
  have base: "stripe_customer_purge ?env2 (inherited (purged_customer 10)) = Inr ()"
    by (simp add: example_purge_env_def)
  from purge_twice [OF first remote base, of 20] first
  show ?thesis
    by (auto simp: purged_customer_db_def)
qed

section \<open>Validating and processing events\<close>

lemma validate_result:
  assumes "validate venv self = Inr self'"
  shows "\<exists>event validated_message.
           api_retrieve venv self = Inr event \<and>
           canonical venv event = Inr validated_message \<and>
           self' = self\<lparr>valid := Some (webhook_message self = validated_message)\<rparr>"
  using assms by (auto simp: validate_def andthen_Inr)

lemma process_keeps_valid:
  assumes "process penv self st = (raised, self', st')"
  shows "valid self' = valid self"
proof (cases "valid self = Some True \<and> \<not> processed self")
  case False
  with assms show ?thesis by (auto simp: process_def)
next
  case True
  with assms show ?thesis
    by (auto simp: process_def split: list.splits sum.splits if_splits)
qed

lemma event_step_keeps_confirmed:
  assumes "event_step venv penv (self, st) (self', st')"
    and "valid self = Some b"
  shows "valid self' = Some b"
  using assms
proof (cases rule: event_step.cases)
  case validation
  with assms(2) show ?thesis by simp
next
  case (processing raised)
  from process_keeps_valid [OF this] assms(2) show ?thesis by simp
qed

lemma event_run_keeps_confirmed:
  assumes "rtranclp (event_step venv penv) (self, st) (self', st')"
    and "valid self = Some b"
  shows "valid self' = Some b"
  using assms
proof (induction rule: rtranclp_induct2)
  case refl
  then show ?case by simp
next
  case (step self1 st1 self2 st2)
  from event_step_keeps_confirmed [OF step.hyps(2)] step.IH step.prems
  show ?case by simp
qed

text \<open>
  C8. Validation is a one-shot transition of the tri-state flag. Run on an event whose
  \<^verbatim>\<open>valid\<close> is unconfirmed, \<^verbatim>\<open>validate\<close> leaves the flag confirmed: authentic when the
  stored payload equals the one downloaded again, inauthentic otherwise. From then on,
  through every later step in the life of the event (a validation can only be a step
  while the flag is unconfirmed, and \<^verbatim>\<open>process\<close> does not write the flag), the flag
  keeps that value: there is no third transition.
\<close>

theorem validation_one_shot:
  assumes unconfirmed: "valid self = None"
    and validated: "validate venv self = Inr self1"
    and later: "rtranclp (event_step venv penv) (self1, st1) (self2, st2)"
  shows "(\<exists>event validated_message.
            api_retrieve venv self = Inr event \<and>
            canonical venv event = Inr validated_message \<and>
            valid self1 = Some (webhook_message self = validated_message)) \<and>
         event_step venv penv (self, st1) (self1, st1) \<and>
         valid self1 \<noteq> None \<and>
         valid self2 = valid self1"
proof -
  from validate_result [OF validated] obtain event validated_message where
    got: "api_retrieve venv self = Inr event"
      "canonical venv event = Inr validated_message" and
    flag: "valid self1 = Some (webhook_message self = validated_message)"
    by auto
  from unconfirmed validated have "event_step venv penv (self, st1) (self1, st1)"
    by (rule event_step.validation)
  moreover from event_run_keeps_confirmed [OF later flag] flag
  have "valid self2 = valid self1" by simp
  ultimately show ?thesis using got flag by auto
qed

text \<open>
  An event is validated against an equal payload and then processed; the flag is
  authentic after the validation and after the processing.
\<close>

theorem validation_one_shot_witness:
  "valid example_event = None \<and>
   validate (example_validate_env 1) example_event = Inr (example_event\<lparr>valid := Some True\<rparr>) \<and>
   rtranclp (event_step (example_validate_env 1) (example_process_env None))
     (example_event\<lparr>valid := Some True\<rparr>, \<lparr>exceptions = [], signals = []\<rparr>)
     (example_event\<lparr>valid := Some True, processed := True\<rparr>,
      \<lparr>exceptions = [],
       signals = [WebhookSignal ''charge.failed'' (example_event\<lparr>valid := Some True\<rparr>)]\<rparr>) \<and>
   valid (example_event\<lparr>valid := Some True, processed := True\<rparr>) = Some True"
proof -
  let ?venv = "example_validate_env 1"
  let ?penv = "example_process_env None"
  let ?self1 = "example_event\<lparr>valid := Some True\<rparr>"
  let ?self2 = "example_event\<lparr>valid := Some True, processed := True\<rparr>"
  let ?st1 = "\<lparr>exceptions = [], signals = []\<rparr> :: nat event_log"
  let ?st2 = "\<lparr>exceptions = [], signals = [WebhookSignal ''charge.failed'' ?self1]\<rparr>"
  have unconfirmed: "valid example_event = None"
    by (simp add: example_event_def)
  have validated: "validate ?venv example_event = Inr ?self1"
    by (simp add: validate_def andthen_def example_validate_env_def example_event_def)
  have "process ?penv ?self1 ?st1 = (None, ?self2, ?st2)"
    by (simp add: process_def message_def send_signal_def split_dot_def andthen_def
        example_process_env_def example_event_def)
  then have "event_step ?venv ?penv (?self1, ?st1) (?self2, ?st2)"
    by (rule event_step.processing)
  then have later: "rtranclp (event_step ?venv ?penv) (?self1, ?st1) (?self2, ?st2)"
    by (rule r_into_rtranclp)
  from validation_one_shot [OF unconfirmed validated later] unconfirmed validated later
  show ?thesis by simp
qed

text \<open>
  C5. For an event that is valid and not processed, whose type splits at a dot and whose
  payload has its data, when the handlers raise a provider error (\<^verbatim>\<open>StripeError\<close> or a
  subclass): the method returns without an exception; the event is as it was, so
  \<open>processed\<close> is still false; one \<^verbatim>\<open>EventProcessingException\<close> row is added, holding the
  error body (empty when there is none), the message and the stack trace; and one
  \<^verbatim>\<open>webhook_processing_error\<close> signal is sent with the error body and the exception.
\<close>

theorem process_provider_error:
  assumes "valid self = Some True"
    and "\<not> processed self"
    and "split_dot (ev_type self) = [event_type, event_subtype]"
    and "getitem_data env (webhook_message self) = Inr data"
    and "call_handlers env self data event_type event_subtype = Some exc"
    and "is_StripeError exc"
  shows "process env self st =
           (None, self,
            st\<lparr>exceptions := exceptions st @
                  [\<lparr>epe_event = Some (ev_stripe_id self),
                    epe_data = (case http_body exc of None \<Rightarrow> [] | Some body \<Rightarrow> body),
                    epe_message = str exc,
                    epe_traceback = format_exc env exc\<rparr>],
               signals := signals st @ [WebhookProcessingError (http_body exc) exc]\<rparr>)
         \<and> processed (fst (snd (process env self st))) = False"
  using assms
  by (simp add: process_def message_def andthen_def log_exception_def split: option.splits)

theorem process_provider_error_witness:
  "process (example_process_env (Some (StripeError ''Your card was declined.'' (Some ''{error}''))))
     (example_event\<lparr>valid := Some True\<rparr>) \<lparr>exceptions = [], signals = []\<rparr>
   = (None, example_event\<lparr>valid := Some True\<rparr>,
      \<lparr>exceptions =
         [\<lparr>epe_event = Some ''evt_1'', epe_data = ''{error}'',
           epe_message = ''Your card was declined.'',
           epe_traceback = ''Traceback (most recent call last): Your card was declined.''\<rparr>],
       signals =
         [WebhookProcessingError (Some ''{error}'')
            (StripeError ''Your card was declined.'' (Some ''{error}''))]\<rparr>)"
proof -
  let ?exc = "StripeError ''Your card was declined.'' (Some ''{error}'')"
  let ?env = "example_process_env (Some ?exc)"
  let ?self = "example_event\<lparr>valid := Some True\<rparr>"
  have v: "valid ?self = Some True" by simp
  have p: "\<not> processed ?self" by (simp add: example_event_def)
  have t: "split_dot (ev_type ?self) = [''charge'', ''failed'']"
    by (simp add: example_event_def split_dot_def)
  have d: "getitem_data ?env (webhook_message ?self) = Inr 1"
    by (simp add: example_process_env_def example_event_def)
  have h: "call_handlers ?env ?self 1 ''charge'' ''failed'' = Some ?exc"
    by (simp add: example_process_env_def)
  have s: "is_StripeError ?exc" by simp
  from process_provider_error [OF v p t d h s, of "\<lparr>exceptions = [], signals = []\<rparr>"]
  show ?thesis
    by (simp add: example_process_env_def example_event_def)
qed

section \<open>Transfer synchronisation\<close>


lemma save_transfer_frame:
  "charge_fee_details (save_transfer t db) = charge_fee_details db"
  "refreshed (save_transfer t db) = refreshed db"
  by (simp_all add: save_transfer_def)

lemma create_fees_appends:
  assumes "create_fees t fees db = Inr db1"
  shows "\<exists>new. charge_fee_details db1 = charge_fee_details db @ new \<and>
               length new = length fees \<and>
               (\<forall>row\<in>set new. fee_transfer row = tr_stripe_id t) \<and>
               transfers db1 = transfers db \<and> refreshed db1 = refreshed db"
  using assms
proof (induction fees arbitrary: db)
  case Nil
  then show ?case by simp
next
  case (Cons fee rest)
  from Cons.prems obtain row where
    rest: "create_fees t rest (db\<lparr>charge_fee_details := charge_fee_details db @ [row]\<rparr>) = Inr db1"
    and row: "fee_transfer row = tr_stripe_id t"
    by (auto simp: andthen_Inr split: if_splits)
  from Cons.IH [OF rest] obtain new where
    "charge_fee_details db1 = (charge_fee_details db @ [row]) @ new"
    "length new = length rest" "\<forall>r\<in>set new. fee_transfer r = tr_stripe_id t"
    "transfers db1 = transfers db" "refreshed db1 = refreshed db"
    by auto
  with row show ?case
    by (intro exI [of _ "row # new"]) simp
qed

lemma get_by_json_found:
  assumes "get_by_json stripe_object db = Inr found"
  shows "getitem stripe_object ''id'' = Inr (tr_stripe_id found)"
    and "filter (\<lambda>r. tr_stripe_id r = tr_stripe_id found) (transfers db) = [found]"
proof -
  from assms obtain i where i: "getitem stripe_object ''id'' = Inr i"
    and c: "(case filter (\<lambda>r. tr_stripe_id r = i) (transfers db) of
               [] \<Rightarrow> Inl DoesNotExist
             | [found] \<Rightarrow> Inr found
             | _ \<Rightarrow> Inl MultipleObjectsReturned) = Inr found"
    by (auto simp: get_by_json_def andthen_Inr)
  from c have f: "filter (\<lambda>r. tr_stripe_id r = i) (transfers db) = [found]"
    by (simp split: list.splits)
  from f have "found \<in> set (filter (\<lambda>r. tr_stripe_id r = i) (transfers db))" by simp
  then have "tr_stripe_id found = i" by simp
  with i f show "getitem stripe_object ''id'' = Inr (tr_stripe_id found)"
    and "filter (\<lambda>r. tr_stripe_id r = tr_stripe_id found) (transfers db) = [found]" by simp_all
qed

lemma save_transfer_again:
  assumes "tr_stripe_id t2 = tr_stripe_id t1"
    and "list_ex (\<lambda>r. tr_stripe_id r = tr_stripe_id t1) rows"
  shows "transfers (save_transfer t2
           (db\<lparr>transfers := map (\<lambda>r. if tr_stripe_id r = tr_stripe_id t1 then t1 else r) rows,
               refreshed := x\<rparr>))
         = map (\<lambda>r. if tr_stripe_id r = tr_stripe_id t1 then t2 else r) rows"
proof -
  have ex: "list_ex (\<lambda>r. tr_stripe_id r = tr_stripe_id t2)
              (map (\<lambda>r. if tr_stripe_id r = tr_stripe_id t1 then t1 else r) rows)"
    using assms by (auto simp: list_ex_iff)
  have "map (\<lambda>r. if tr_stripe_id r = tr_stripe_id t2 then t2 else r)
          (map (\<lambda>r. if tr_stripe_id r = tr_stripe_id t1 then t1 else r) rows)
        = map (\<lambda>r. if tr_stripe_id r = tr_stripe_id t1 then t2 else r) rows"
    using assms(1) by (induction rows) auto
  with ex show ?thesis
    by (simp add: save_transfer_def)
qed

lemma process_transfer_found:
  assumes "get_by_json stripe_object db = Inr found"
  shows "process_transfer env event stripe_object db =
           andthen (getitem stripe_object ''status'') (\<lambda>status.
             if (case event of None \<Rightarrow> False | Some e \<Rightarrow> ev_type e = ''transfer.updated'')
             then andthen (update_status env (found\<lparr>tr_event := event, tr_status := status\<rparr>)
                             (save_transfer (found\<lparr>tr_event := event, tr_status := status\<rparr>) db))
                    (\<lambda>(transfer, db). Inr (save_transfer transfer db))
             else Inr (save_transfer (found\<lparr>tr_event := event, tr_status := status\<rparr>) db))"
  using assms
  by (cases "getitem stripe_object ''status''") (simp_all add: process_transfer_def andthen_def Let_def)


lemma process_transfer_update:
  assumes found: "get_by_json stripe_object db = Inr found"
    and ok: "process_transfer env event stripe_object db = Inr db'"
  shows "charge_fee_details db' = charge_fee_details db \<and>
         (\<exists>payload_status status.
            getitem stripe_object ''status'' = Inr payload_status \<and>
            (if (case event of None \<Rightarrow> False | Some e \<Rightarrow> ev_type e = ''transfer.updated'')
             then remote_status env (found\<lparr>tr_event := event, tr_status := payload_status\<rparr>)
                    = Inr status
             else status = payload_status) \<and>
            transfers db' =
              map (\<lambda>r. if tr_stripe_id r = tr_stripe_id found
                        then found\<lparr>tr_event := event, tr_status := status\<rparr> else r)
                  (transfers db)) \<and>
         refreshed db' = refreshed db @
           (if (case event of None \<Rightarrow> False | Some e \<Rightarrow> ev_type e = ''transfer.updated'')
            then [tr_stripe_id found] else [])"
proof -
  let ?upd = "case event of None \<Rightarrow> False | Some e \<Rightarrow> ev_type e = ''transfer.updated''"
  note one = get_by_json_found(2) [OF found]
  from one have "found \<in> set (filter (\<lambda>r. tr_stripe_id r = tr_stripe_id found) (transfers db))"
    by simp
  then have ex: "list_ex (\<lambda>r. tr_stripe_id r = tr_stripe_id found) (transfers db)"
    by (auto simp: list_ex_iff)
  from ok obtain s0 where
    s0: "getitem stripe_object ''status'' = Inr s0" and
    tail: "(if ?upd
            then andthen (update_status env (found\<lparr>tr_event := event, tr_status := s0\<rparr>)
                            (save_transfer (found\<lparr>tr_event := event, tr_status := s0\<rparr>) db))
                   (\<lambda>(transfer, db). Inr (save_transfer transfer db))
            else Inr (save_transfer (found\<lparr>tr_event := event, tr_status := s0\<rparr>) db)) = Inr db'"
    unfolding process_transfer_found [OF found] andthen_Inr by blast
  let ?t0 = "found\<lparr>tr_event := event, tr_status := s0\<rparr>"
  let ?f = "\<lambda>t r. if tr_stripe_id r = tr_stripe_id found then t else r"
  have save0: "save_transfer ?t0 db = db\<lparr>transfers := map (?f ?t0) (transfers db)\<rparr>"
    using ex by (simp add: save_transfer_def)
  show ?thesis
  proof (cases ?upd)
    case False
    with tail have "db' = save_transfer ?t0 db" by simp
    with False s0 show ?thesis by (simp add: save0)
  next
    case True
    with tail have "andthen (update_status env ?t0 (save_transfer ?t0 db))
                      (\<lambda>(transfer, db). Inr (save_transfer transfer db)) = Inr db'"
      by simp
    then obtain t1 db1 where
      u: "update_status env ?t0 (save_transfer ?t0 db) = Inr (t1, db1)" and
      db': "db' = save_transfer t1 db1"
      by (auto simp: andthen_Inr)
    from u obtain s1 where
      s1: "remote_status env ?t0 = Inr s1" and
      t1: "t1 = ?t0\<lparr>tr_status := s1\<rparr>" and
      db1: "db1 = (save_transfer ?t0 db)\<lparr>refreshed := refreshed (save_transfer ?t0 db)
                     @ [tr_stripe_id found]\<rparr>"
      by (auto simp: update_status_def Let_def andthen_Inr)
    have db1': "db1 = db\<lparr>transfers := map (?f ?t0) (transfers db),
                          refreshed := refreshed db @ [tr_stripe_id found]\<rparr>"
      by (simp add: db1 save0)
    have "transfers db' = map (?f t1) (transfers db)"
      unfolding db' db1'
      using save_transfer_again [where ?t2.0 = t1 and ?t1.0 = ?t0 and rows = "transfers db" and db = db
          and x = "refreshed db @ [tr_stripe_id found]"] ex
      by (simp add: t1)
    moreover have "charge_fee_details db' = charge_fee_details db"
      by (simp add: db' db1' save_transfer_frame)
    moreover have "refreshed db' = refreshed db @ [tr_stripe_id found]"
      by (simp add: db' db1' save_transfer_frame)
    moreover have "t1 = found\<lparr>tr_event := event, tr_status := s1\<rparr>"
      by (simp add: t1)
    ultimately show ?thesis using True s0 s1 by auto
  qed
qed


lemma get_by_json_missing:
  assumes "get_by_json stripe_object db = Inl DoesNotExist"
  shows "\<exists>i. getitem stripe_object ''id'' = Inr i \<and>
             filter (\<lambda>r. tr_stripe_id r = i) (transfers db) = []"
proof (cases "getitem stripe_object ''id''")
  case (Inl e)
  then have "e \<noteq> DoesNotExist"
    by (cases stripe_object) (auto split: option.splits)
  with Inl assms show ?thesis by (simp add: get_by_json_def andthen_def)
next
  case (Inr i)
  with assms show ?thesis
    by (simp add: get_by_json_def andthen_def split: list.splits)
qed

lemma process_transfer_missing:
  assumes "get_by_json stripe_object db = Inl DoesNotExist"
  shows "process_transfer env event stripe_object db =
           andthen (create_from_stripe_object env stripe_object) (\<lambda>made.
           andthen (getitem stripe_object ''summary'') (\<lambda>summary.
           andthen (getitem summary ''charge_fee_details'') (\<lambda>details.
           andthen (iterate details) (\<lambda>fees.
           andthen (create_fees (made\<lparr>tr_event := event\<rparr>) fees
                      (save_transfer (made\<lparr>tr_event := event\<rparr>) db)) (\<lambda>db.
           if (case event of None \<Rightarrow> False | Some e \<Rightarrow> ev_type e = ''transfer.updated'')
           then andthen (update_status env (made\<lparr>tr_event := event\<rparr>) db)
                  (\<lambda>(transfer, db). Inr (save_transfer transfer db))
           else Inr db)))))"
  using assms
  by (simp add: process_transfer_def andthen_def Let_def split: sum.splits)

lemma process_transfer_create:
  assumes missing: "get_by_json stripe_object db = Inl DoesNotExist"
    and ok: "process_transfer env event stripe_object db = Inr db'"
  shows "\<exists>made summary details fees new.
           create_from_stripe_object env stripe_object = Inr made \<and>
           getitem stripe_object ''summary'' = Inr summary \<and>
           getitem summary ''charge_fee_details'' = Inr details \<and>
           iterate details = Inr fees \<and>
           charge_fee_details db' = charge_fee_details db @ new \<and>
           length new = length fees \<and>
           (\<forall>row\<in>set new. fee_transfer row = tr_stripe_id made) \<and>
           (getitem stripe_object ''id'' = Inr (tr_stripe_id made) \<longrightarrow>
              (\<exists>row. get_by_json stripe_object db' = Inr row))"
proof -
  let ?upd = "case event of None \<Rightarrow> False | Some e \<Rightarrow> ev_type e = ''transfer.updated''"
  from ok obtain made summary details fees db1 where
    made: "create_from_stripe_object env stripe_object = Inr made" and
    summary: "getitem stripe_object ''summary'' = Inr summary" and
    details: "getitem summary ''charge_fee_details'' = Inr details" and
    fees: "iterate details = Inr fees" and
    created: "create_fees (made\<lparr>tr_event := event\<rparr>) fees
                (save_transfer (made\<lparr>tr_event := event\<rparr>) db) = Inr db1" and
    tail: "(if ?upd
            then andthen (update_status env (made\<lparr>tr_event := event\<rparr>) db1)
                   (\<lambda>(transfer, db). Inr (save_transfer transfer db))
            else Inr db1) = Inr db'"
    unfolding process_transfer_missing [OF missing] andthen_Inr by blast
  let ?t0 = "made\<lparr>tr_event := event\<rparr>"
  from create_fees_appends [OF created] obtain new where
    new: "charge_fee_details db1 = charge_fee_details db @ new"
      "length new = length fees" "\<forall>row\<in>set new. fee_transfer row = tr_stripe_id made" and
    rows1: "transfers db1 = transfers (save_transfer ?t0 db)" and
    "refreshed db1 = refreshed db"
    by (auto simp: save_transfer_frame)
  have fees': "charge_fee_details db' = charge_fee_details db1"
  proof (cases ?upd)
    case False
    with tail show ?thesis by simp
  next
    case True
    with tail show ?thesis
      by (auto simp: andthen_Inr update_status_def Let_def save_transfer_frame)
  qed
  have again: "\<exists>row. get_by_json stripe_object db' = Inr row"
    if id: "getitem stripe_object ''id'' = Inr (tr_stripe_id made)"
  proof -
    let ?same = "\<lambda>r. tr_stripe_id r = tr_stripe_id made"
    from get_by_json_missing [OF missing] id
    have none: "filter ?same (transfers db) = []" by simp
    then have no: "\<not> list_ex ?same (transfers db)"
      by (auto simp: list_ex_iff filter_empty_conv)
    have rows1': "transfers db1 = transfers db @ [?t0]"
      using no by (simp add: rows1 save_transfer_def)
    have keep: "map (\<lambda>r. if ?same r then t else r) (transfers db) = transfers db" for t
      using none by (auto simp: filter_empty_conv intro: map_idI)
    have "\<exists>t. tr_stripe_id t = tr_stripe_id made \<and> transfers db' = transfers db @ [t]"
    proof (cases ?upd)
      case False
      with tail rows1' show ?thesis by auto
    next
      case True
      with tail obtain s1 where
        "db' = save_transfer (?t0\<lparr>tr_status := s1\<rparr>)
                 (db1\<lparr>refreshed := refreshed db1 @ [tr_stripe_id made]\<rparr>)"
        by (auto simp: andthen_Inr update_status_def Let_def)
      then have "transfers db' = transfers db @ [?t0\<lparr>tr_status := s1\<rparr>]"
        by (simp add: save_transfer_def rows1' keep)
      then show ?thesis by auto
    qed
    then obtain t where t: "tr_stripe_id t = tr_stripe_id made"
      "transfers db' = transfers db @ [t]" by blast
    with none have "filter ?same (transfers db') = [t]" by simp
    with id show ?thesis
      by (simp add: get_by_json_def andthen_def)
  qed
  from made summary details fees new fees' again show ?thesis
    by auto
qed


text \<open>
  C7, as amended. For a transfer sync that returns: when no row has the payload's
  identifier, the row is created and one fee row is added per entry of the payload's fee
  details, each pointing to the new transfer, and a later sync of the payload finds the
  row; when the row exists, the fee rows are left exactly as they were, the row keeps
  its other fields and gets the triggering event as its \<^verbatim>\<open>event\<close> link and a refreshed
  \<^verbatim>\<open>status\<close> (the payload's, or the provider's after the refresh call), and the
  status-refresh call is made exactly when there is a triggering event of type
  "transfer.updated".
\<close>

theorem process_transfer_effects:
  assumes ok: "process_transfer env event stripe_object db = Inr db'"
  shows "(get_by_json stripe_object db = Inl DoesNotExist \<longrightarrow>
            (\<exists>made summary details fees new.
               create_from_stripe_object env stripe_object = Inr made \<and>
               getitem stripe_object ''summary'' = Inr summary \<and>
               getitem summary ''charge_fee_details'' = Inr details \<and>
               iterate details = Inr fees \<and>
               charge_fee_details db' = charge_fee_details db @ new \<and>
               length new = length fees \<and>
               (\<forall>row\<in>set new. fee_transfer row = tr_stripe_id made) \<and>
               (getitem stripe_object ''id'' = Inr (tr_stripe_id made) \<longrightarrow>
                  (\<exists>row. get_by_json stripe_object db' = Inr row)))) \<and>
         (\<forall>found. get_by_json stripe_object db = Inr found \<longrightarrow>
            charge_fee_details db' = charge_fee_details db \<and>
            (\<exists>payload_status status.
               getitem stripe_object ''status'' = Inr payload_status \<and>
               (if (case event of None \<Rightarrow> False | Some e \<Rightarrow> ev_type e = ''transfer.updated'')
                then remote_status env (found\<lparr>tr_event := event, tr_status := payload_status\<rparr>)
                       = Inr status
                else status = payload_status) \<and>
               transfers db' =
                 map (\<lambda>r. if tr_stripe_id r = tr_stripe_id found
                           then found\<lparr>tr_event := event, tr_status := status\<rparr> else r)
                     (transfers db)) \<and>
            refreshed db' = refreshed db @
              (if (case event of None \<Rightarrow> False | Some e \<Rightarrow> ev_type e = ''transfer.updated'')
               then [tr_stripe_id found] else []))"
proof (intro conjI impI allI)
  assume "get_by_json stripe_object db = Inl DoesNotExist"
  from process_transfer_create [OF this ok]
  show "\<exists>made summary details fees new.
               create_from_stripe_object env stripe_object = Inr made \<and>
               getitem stripe_object ''summary'' = Inr summary \<and>
               getitem summary ''charge_fee_details'' = Inr details \<and>
               iterate details = Inr fees \<and>
               charge_fee_details db' = charge_fee_details db @ new \<and>
               length new = length fees \<and>
               (\<forall>row\<in>set new. fee_transfer row = tr_stripe_id made) \<and>
               (getitem stripe_object ''id'' = Inr (tr_stripe_id made) \<longrightarrow>
                  (\<exists>row. get_by_json stripe_object db' = Inr row))" .
next
  fix found
  assume "get_by_json stripe_object db = Inr found"
  note upd = process_transfer_update [OF this ok]
  from upd show "charge_fee_details db' = charge_fee_details db" by (rule conjunct1)
  from upd show "\<exists>payload_status status.
               getitem stripe_object ''status'' = Inr payload_status \<and>
               (if (case event of None \<Rightarrow> False | Some e \<Rightarrow> ev_type e = ''transfer.updated'')
                then remote_status env (found\<lparr>tr_event := event, tr_status := payload_status\<rparr>)
                       = Inr status
                else status = payload_status) \<and>
               transfers db' =
                 map (\<lambda>r. if tr_stripe_id r = tr_stripe_id found
                           then found\<lparr>tr_event := event, tr_status := status\<rparr> else r)
                     (transfers db)"
    by (rule conjunct1 [OF conjunct2])
  from upd show "refreshed db' = refreshed db @
              (if (case event of None \<Rightarrow> False | Some e \<Rightarrow> ev_type e = ''transfer.updated'')
               then [tr_stripe_id found] else [])"
    by (rule conjunct2 [OF conjunct2])
qed

lemmas example_transfer_defs =
  example_transfer_payload_def example_transfer_def example_transfer_env_def example_fee_def
  example_transfer_db_def transfer_paid_event_def example_event_def

lemmas process_transfer_defs =
  process_transfer_def get_by_json_def save_transfer_def update_status_def andthen_def Let_def
  fits_decimal_7_2_def

text \<open>
  The claim as stated fails on the frame of an update: a sync of an existing transfer,
  triggered by an event, also replaces the transfer's \<^verbatim>\<open>event\<close> link; the stored row is not
  the old row with only its status refreshed.
\<close>

theorem process_transfer_event_counterexample:
  "process_transfer example_transfer_env (Some transfer_paid_event)
     (example_transfer_payload ''paid'') example_transfer_db
   = Inr \<lparr>transfers = [example_transfer\<lparr>tr_status := JStr ''paid'',
                                          tr_event := Some transfer_paid_event\<rparr>],
          charge_fee_details = [example_fee], refreshed = []\<rparr> \<and>
   example_transfer\<lparr>tr_status := JStr ''paid'', tr_event := Some transfer_paid_event\<rparr>
     \<noteq> example_transfer\<lparr>tr_status := JStr ''paid''\<rparr>"
  by (simp add: process_transfer_defs example_transfer_defs)

theorem process_transfer_effects_witness:
  "(\<exists>db'. process_transfer example_transfer_env (Some (transfer_paid_event\<lparr>ev_type := ''transfer.updated''\<rparr>))
             (example_transfer_payload ''in_transit'') example_transfer_db = Inr db' \<and>
          charge_fee_details db' = [example_fee] \<and>
          refreshed db' = [JStr ''tr_1'']) \<and>
   (\<exists>db'. process_transfer example_transfer_env None (example_transfer_payload ''pending'')
             \<lparr>transfers = [], charge_fee_details = [], refreshed = []\<rparr> = Inr db' \<and>
          length (charge_fee_details db') = 1 \<and>
          (\<exists>row. get_by_json (example_transfer_payload ''pending'') db' = Inr row))"
proof -
  let ?updated = "Some (transfer_paid_event\<lparr>ev_type := ''transfer.updated''\<rparr>)"
  let ?empty = "\<lparr>transfers = [], charge_fee_details = [], refreshed = []\<rparr> :: (nat, unit) transfer_db"
  have "\<exists>db'. process_transfer example_transfer_env ?updated
                 (example_transfer_payload ''in_transit'') example_transfer_db = Inr db'"
    by (simp add: process_transfer_defs example_transfer_defs)
  then obtain db1 where
    ok1: "process_transfer example_transfer_env ?updated
            (example_transfer_payload ''in_transit'') example_transfer_db = Inr db1" ..
  have found: "get_by_json (example_transfer_payload ''in_transit'') example_transfer_db
                 = Inr example_transfer"
    by (simp add: get_by_json_def andthen_def example_transfer_defs)
  from process_transfer_effects [OF ok1] found
  have "charge_fee_details db1 = [example_fee] \<and> refreshed db1 = [JStr ''tr_1'']"
    by (simp add: example_transfer_defs)
  with ok1 have first: "\<exists>db'. process_transfer example_transfer_env ?updated
             (example_transfer_payload ''in_transit'') example_transfer_db = Inr db' \<and>
          charge_fee_details db' = [example_fee] \<and> refreshed db' = [JStr ''tr_1'']"
    by blast
  have "\<exists>db'. process_transfer example_transfer_env None (example_transfer_payload ''pending'')
                 ?empty = Inr db'"
    by (simp add: process_transfer_defs example_transfer_defs)
  then obtain db2 where
    ok2: "process_transfer example_transfer_env None (example_transfer_payload ''pending'')
            ?empty = Inr db2" ..
  have missing: "get_by_json (example_transfer_payload ''pending'') ?empty = Inl DoesNotExist"
    by (simp add: get_by_json_def andthen_def example_transfer_defs)
  from process_transfer_effects [OF ok2] missing
  have "length (charge_fee_details db2) = 1 \<and>
        (\<exists>row. get_by_json (example_transfer_payload ''pending'') db2 = Inr row)"
    by (auto simp: example_transfer_defs)
  with ok2 first show ?thesis by blast
qed

end
